theory Spec2Isabelle
  imports Main
begin

section \<open>Library behaviour the endpoints rely on\<close>

subsection \<open>Strings\<close>

text \<open>
  Strings are lists of 8-bit characters, so the model covers ASCII input. The two
  Python string operations used on identifiers and file names are
  \<^verbatim>\<open>s.replace(old, '')\<close> and \<^verbatim>\<open>s.lower()\<close>.
\<close>

function str_remove :: "string \<Rightarrow> string \<Rightarrow> string" where
  "str_remove old [] = []"
| "str_remove old (c # cs) =
     (if old \<noteq> [] \<and> take (length old) (c # cs) = old
      then str_remove old (drop (length old) (c # cs))
      else c # str_remove old cs)"
  by pat_completeness auto
termination
  by (relation "measure (\<lambda>(old, s). length s)") auto

definition lower_char :: "char \<Rightarrow> char" where
  "lower_char c =
     (if 65 \<le> (of_char c :: nat) \<and> (of_char c :: nat) \<le> 90
      then char_of ((of_char c :: nat) + 32) else c)"

definition lower :: "string \<Rightarrow> string" where
  "lower s = map lower_char s"

subsection \<open>\<^verbatim>\<open>uuid.UUID(s)\<close> and \<^verbatim>\<open>str(uuid.UUID(s))\<close>\<close>

text \<open>
  The constructor removes \<^verbatim>\<open>urn:\<close> and \<^verbatim>\<open>uuid:\<close>, strips braces, removes
  hyphens, requires 32 remaining characters and hands them to \<^verbatim>\<open>int(hex, 16)\<close>,
  raising \<^verbatim>\<open>ValueError\<close> otherwise. \<^verbatim>\<open>int\<close> accepts surrounding white space
  (the characters 9 to 13 and the blank, 32), a
  plus sign (a minus sign cannot be left once the hyphens are gone), a \<^verbatim>\<open>0x\<close> prefix
  and single underscores between digits. \<open>uuid_parse\<close> returns
  \<open>None\<close> for the \<^verbatim>\<open>ValueError\<close> and otherwise the canonical text of the value
  (\<^verbatim>\<open>str\<close> of the UUID object: 32 lower-case hex digits grouped 8-4-4-4-12).
\<close>

definition is_space :: "char \<Rightarrow> bool" where
  "is_space c =
     ((9 \<le> (of_char c :: nat) \<and> (of_char c :: nat) \<le> 13) \<or> (of_char c :: nat) = 32)"

definition is_hex :: "char \<Rightarrow> bool" where
  "is_hex c = (c \<in> set ''0123456789abcdefABCDEF'')"

definition strip_chars :: "(char \<Rightarrow> bool) \<Rightarrow> string \<Rightarrow> string" where
  "strip_chars p s = rev (dropWhile p (rev (dropWhile p s)))"

text \<open>The digit scan of \<^verbatim>\<open>int\<close>: digits and underscores, no two underscores in a
  row, none at the end; \<open>prev\<close> tells whether the previous character was an underscore.\<close>

fun scan_digits :: "bool \<Rightarrow> string \<Rightarrow> string option" where
  "scan_digits prev [] = (if prev then None else Some [])"
| "scan_digits prev (c # cs) =
     (if c = CHR ''_'' then (if prev then None else scan_digits True cs)
      else if is_hex c then map_option ((#) c) (scan_digits False cs)
      else None)"

definition int16_digits :: "string \<Rightarrow> string option" where
  "int16_digits s =
     (let s1 = strip_chars is_space s;
          s2 = (case s1 of c # cs \<Rightarrow> if c = CHR ''+'' then cs else s1 | [] \<Rightarrow> s1);
          s3 = (case s2 of
                  a # b # cs \<Rightarrow>
                    if a = CHR ''0'' \<and> (b = CHR ''x'' \<or> b = CHR ''X'')
                    then (case cs of c # cs' \<Rightarrow> if c = CHR ''_'' then cs' else cs
                          | [] \<Rightarrow> cs)
                    else s2
                | _ \<Rightarrow> s2)
      in case s3 of
           [] \<Rightarrow> None
         | c # cs \<Rightarrow> if c = CHR ''_'' then None else scan_digits False s3)"

definition uuid_str :: "string \<Rightarrow> string" where
  "uuid_str digits =
     (let h = replicate (32 - length digits) CHR ''0'' @ lower digits
      in take 8 h @ ''-'' @ take 4 (drop 8 h) @ ''-'' @ take 4 (drop 12 h) @ ''-''
         @ take 4 (drop 16 h) @ ''-'' @ drop 20 h)"

definition uuid_parse :: "string \<Rightarrow> string option" where
  "uuid_parse s =
     (let h0 = str_remove ''uuid:'' (str_remove ''urn:'' s);
          h = str_remove ''-'' (strip_chars (\<lambda>c. c = CHR ''{'' \<or> c = CHR ''}'') h0)
      in if length h \<noteq> 32 then None
         else map_option uuid_str (int16_digits h))"

section \<open>The service with advocates, clients, cases and documents (main.py, models.py)\<close>

subsection \<open>Tables, object store, environment\<close>

text \<open>
  Every table is a map from its primary key (the \<open>id\<close> column) to the remaining columns;
  the association table \<open>advocate_cases\<close> has no key and is a list of pairs. The object
  store maps keys to contents. \<open>trace\<close> records, oldest first, each call that leaves
  the process: object-store calls with their outcome, commits and rollbacks. \<open>logs\<close>
  holds the messages passed to \<^verbatim>\<open>logging\<close>. Both services share the \<open>store\<close> part.
\<close>

datatype outcome = Done | Failed

datatype event =
    S3Put string outcome
  | S3Delete string outcome
  | S3Presign string outcome
  | DbCommit outcome
  | DbRollback

record advocate =
  adv_name :: string
  adv_email :: string

record client =
  cl_name :: string
  cl_contact_number :: string
  cl_address :: string

record case_row =
  cs_name :: string
  cs_case_type :: string
  cs_client_id :: string
  cs_description :: "string option"
  cs_filing_date :: string

record document =
  doc_type :: string
  doc_file_name :: string
  doc_file_path :: string
  doc_created_at :: string
  doc_adv_id :: string
  doc_case_id :: string

record store =
  objects :: "string \<rightharpoonup> string"
  trace :: "event list"
  logs :: "string list"

record world = store +
  advocates :: "string \<rightharpoonup> advocate"
  clients :: "string \<rightharpoonup> client"
  cases :: "string \<rightharpoonup> case_row"
  advocate_cases :: "(string \<times> string) list"
  documents :: "string \<rightharpoonup> document"

text \<open>
  What a request takes from outside the program: the bucket name, the two
  \<^verbatim>\<open>uuid.uuid4()\<close> draws (file name, primary-key default), the clock, the URL the
  client library signs for a key, and whether the object-store call, the commit and
  the seek on the temporary file of this request raise for a reason outside the
  model (network, server). Constraint violations declared in models.py are modelled
  at the commit itself.
\<close>

record env =
  bucket :: string
  uuid4_name :: string
  uuid4_row :: string
  utcnow :: string
  signed_url :: "string \<Rightarrow> string"
  s3_raises :: bool
  commit_raises :: bool
  seek_raises :: bool

datatype exn =
    ValueError string
  | HTTPException nat string
  | DatabaseError string
  | ClientError string

text \<open>\<^verbatim>\<open>str(e)\<close>; for an \<^verbatim>\<open>HTTPException\<close> the text is \<^verbatim>\<open>"{status_code}: {detail}"\<close>.\<close>

fun digits_of :: "nat \<Rightarrow> string" where
  "digits_of n =
     (if n < 10 then [char_of (48 + n)]
      else digits_of (n div 10) @ [char_of (48 + n mod 10)])"

fun exn_str :: "exn \<Rightarrow> string" where
  "exn_str (ValueError m) = m"
| "exn_str (HTTPException st d) = digits_of st @ '': '' @ d"
| "exn_str (DatabaseError m) = m"
| "exn_str (ClientError m) = m"

declare digits_of.simps [simp del]

subsection \<open>register_case\<close>

record case_form =
  case_name :: string
  f_advocate_id :: string
  f_client_id :: string
  f_case_type :: string
  f_case_description :: "string option"
  f_filing_date :: "string option"

record case_response =
  r_case_id :: string
  r_message :: string

text \<open>The body of the \<^verbatim>\<open>try\<close> block of \<^verbatim>\<open>register_case\<close>, lines 71 to 101.\<close>

definition register_case_try :: "env \<Rightarrow> world \<Rightarrow> case_form \<Rightarrow> (exn + case_response) \<times> world" where
  "register_case_try e w f =
     (case uuid_parse (f_advocate_id f) of
        None \<Rightarrow> (Inl (ValueError ''badly formed hexadecimal UUID string''), w)
      | Some _ \<Rightarrow>
     (case uuid_parse (f_client_id f) of
        None \<Rightarrow> (Inl (ValueError ''badly formed hexadecimal UUID string''), w)
      | Some _ \<Rightarrow>
     (let advocate = advocates w (f_advocate_id f);
          client = clients w (f_client_id f)
      in if advocate = None then (Inl (HTTPException 404 ''Advocate not found''), w)
         else if client = None then (Inl (HTTPException 404 ''Client not found''), w)
         else
           (let new_id = uuid4_row e;
                new_case = \<lparr> cs_name = case_name f, cs_case_type = f_case_type f,
                             cs_client_id = f_client_id f,
                             cs_description = f_case_description f,
                             cs_filing_date =
                               (case f_filing_date f of None \<Rightarrow> utcnow e | Some d \<Rightarrow> d) \<rparr>
            in if commit_raises e \<or> new_id \<in> dom (cases w)
               then (Inl (DatabaseError ''commit failed''),
                     w\<lparr> trace := trace w @ [DbCommit Failed] \<rparr>)
               else (Inr \<lparr> r_case_id = new_id, r_message = ''Case registered successfully'' \<rparr>,
                     w\<lparr> cases := (cases w)(new_id \<mapsto> new_case),
                        advocate_cases := advocate_cases w @ [(f_advocate_id f, new_id)],
                        trace := trace w @ [DbCommit Done] \<rparr>)))))"

text \<open>The two handlers, lines 103 to 108: \<^verbatim>\<open>except ValueError\<close>, then
  \<^verbatim>\<open>except Exception\<close>, which every other exception raised in the block reaches.\<close>

definition register_case :: "env \<Rightarrow> world \<Rightarrow> case_form \<Rightarrow> (exn + case_response) \<times> world" where
  "register_case e w f =
     (case register_case_try e w f of
        (Inr r, w') \<Rightarrow> (Inr r, w')
      | (Inl (ValueError m), w') \<Rightarrow> (Inl (HTTPException 400 ''Invalid UUID format''), w')
      | (Inl x, w') \<Rightarrow>
          (Inl (HTTPException 400 (exn_str x)),
           w'\<lparr> trace := trace w' @ [DbRollback],
               logs := logs w' @ [''Case registration failed: '' @ exn_str x] \<rparr>))"

subsection \<open>The uploaded file and its validation\<close>

text \<open>An \<^verbatim>\<open>UploadFile\<close>: the client's file name, the bytes, the stream position.\<close>

record UploadFile =
  filename :: string
  content :: string
  pos :: nat
  closed :: bool

definition read :: "nat \<Rightarrow> UploadFile \<Rightarrow> string \<times> UploadFile" where
  "read n f =
     (take n (drop (pos f) (content f)),
      f\<lparr> pos := pos f + length (take n (drop (pos f) (content f))) \<rparr>)"

definition seek :: "nat \<Rightarrow> UploadFile \<Rightarrow> UploadFile" where
  "seek p f = f\<lparr> pos := p \<rparr>"

definition close :: "UploadFile \<Rightarrow> UploadFile" where
  "close f = f\<lparr> closed := True \<rparr>"

text \<open>
  \<^verbatim>\<open>Path(name).suffix\<close> on a POSIX path, as in CPython up to 3.12: the name is the last
  component that is neither empty nor a single dot; the suffix starts at the last dot
  of the name unless that dot is its first or its last character.
\<close>

fun split_on :: "char \<Rightarrow> string \<Rightarrow> string list" where
  "split_on d [] = [[]]"
| "split_on d (c # cs) =
     (if c = d then [] # split_on d cs
      else (case split_on d cs of p # ps \<Rightarrow> (c # p) # ps | [] \<Rightarrow> [[c]]))"

definition path_name :: "string \<Rightarrow> string" where
  "path_name s =
     (case rev (filter (\<lambda>p. p \<noteq> [] \<and> p \<noteq> ''.'') (split_on CHR ''/'' s)) of
        [] \<Rightarrow> [] | p # _ \<Rightarrow> p)"

definition suffix :: "string \<Rightarrow> string" where
  "suffix s =
     (let name = path_name s;
          i = length name - Suc (length (takeWhile (\<lambda>c. c \<noteq> CHR ''.'') (rev name)))
      in if CHR ''.'' \<in> set name \<and> 0 < i \<and> Suc i < length name then drop i name else [])"

definition ALLOWED_EXTENSIONS :: "string list" where
  "ALLOWED_EXTENSIONS = [''.pdf'', ''.doc'', ''.docx'', ''.txt'', ''.jpg'', ''.jpeg'', ''.png'']"

definition MAX_FILE_SIZE :: nat where
  "MAX_FILE_SIZE = 10 * 1024 * 1024"

definition chunk_size :: nat where
  "chunk_size = 1024"

definition size_exceeded :: exn where
  "size_exceeded = HTTPException 400 ''File size exceeds maximum limit of 10.0MB''"

text \<open>The \<^verbatim>\<open>while chunk := await file.read(chunk_size)\<close> loop of \<^verbatim>\<open>validate_file\<close>;
  the first argument is the running \<^verbatim>\<open>file_size\<close>.\<close>

function size_loop :: "nat \<Rightarrow> UploadFile \<Rightarrow> (exn + nat) \<times> UploadFile" where
  "size_loop file_size f =
     (let chunk = fst (read chunk_size f); f' = snd (read chunk_size f)
      in if chunk = [] then (Inr file_size, f')
         else if file_size + length chunk > MAX_FILE_SIZE then (Inl size_exceeded, f')
         else size_loop (file_size + length chunk) f')"
  by pat_completeness auto
termination
  by (relation "measure (\<lambda>(n, f). length (content f) - pos f)")
     (auto simp: read_def chunk_size_def)

declare size_loop.simps [simp del]

text \<open>The message of the extension check lists the allowed set; a Python set has no
  fixed iteration order, the order of the source text stands for it.\<close>

definition type_not_allowed :: exn where
  "type_not_allowed =
     HTTPException 400
       (''File type not allowed. Allowed types: ''
        @ ''.pdf, .doc, .docx, .txt, .jpg, .jpeg, .png'')"

definition validate_file :: "UploadFile \<Rightarrow> (exn + unit) \<times> UploadFile" where
  "validate_file f =
     (case size_loop 0 f of
        (Inl x, f') \<Rightarrow> (Inl x, f')
      | (Inr _, f') \<Rightarrow>
          (let f'' = seek 0 f';
               ext = lower (suffix (filename f''))
           in if ext \<notin> set ALLOWED_EXTENSIONS then (Inl type_not_allowed, f'')
              else (Inr (), f'')))"

definition sanitize_filename :: "env \<Rightarrow> string \<Rightarrow> string" where
  "sanitize_filename e name = uuid4_name e @ suffix name"

subsection \<open>The object store\<close>

definition s3_url_of :: "env \<Rightarrow> string \<Rightarrow> string" where
  "s3_url_of e key = ''https://'' @ bucket e @ ''.s3.amazonaws.com/'' @ key"

text \<open>
  Modelled from the spec: the awaited \<^verbatim>\<open>upload_to_s3\<close> of the \<^verbatim>\<open>utils.s3_utils\<close> module
  that main.py imports is not among the sources. Section 4.3 gives it as
  \<^verbatim>\<open>put(key, content) -> url|error\<close> and section 6 as returning the public bucket URL;
  main.py expects the error as an exception. The stream is read from its position to
  the end.
\<close>

definition put_object :: "env \<Rightarrow> UploadFile \<Rightarrow> string \<Rightarrow> 'a store_scheme
    \<Rightarrow> (exn + string) \<times> UploadFile \<times> 'a store_scheme" where
  "put_object e f key st =
     (if s3_raises e
      then (Inl (ClientError ''put failed''), f, st\<lparr> trace := trace st @ [S3Put key Failed] \<rparr>)
      else (Inr (s3_url_of e key), f\<lparr> pos := max (pos f) (length (content f)) \<rparr>,
            st\<lparr> objects := (objects st)(key \<mapsto> drop (pos f) (content f)),
                trace := trace st @ [S3Put key Done] \<rparr>))"

subsection \<open>upload_document\<close>

record document_form =
  up_file :: UploadFile
  up_advocate_id :: string
  up_case_id :: string
  up_doc_type :: string

record document_response =
  r_document_id :: string
  r_url :: string
  r_file_name :: string

definition file_key_of :: "string \<Rightarrow> string \<Rightarrow> string \<Rightarrow> string \<Rightarrow> string" where
  "file_key_of a c t name = a @ ''/'' @ c @ ''/'' @ t @ ''/'' @ name"

text \<open>The constraints models.py declares on \<open>documents\<close>: the primary key and the two
  foreign keys.\<close>

definition document_insertable :: "world \<Rightarrow> string \<Rightarrow> document \<Rightarrow> bool" where
  "document_insertable w i d =
     (i \<notin> dom (documents w) \<and> doc_adv_id d \<in> dom (advocates w)
      \<and> doc_case_id d \<in> dom (cases w))"

text \<open>The body of the outer \<^verbatim>\<open>try\<close> of \<^verbatim>\<open>upload_document\<close>, lines 196 to 260. No
  handler is attached to it, so every exception leaves the endpoint as raised.\<close>

definition upload_document_try :: "env \<Rightarrow> world \<Rightarrow> document_form
    \<Rightarrow> (exn + document_response) \<times> UploadFile \<times> world" where
  "upload_document_try e w r =
     (let file = up_file r; advocate_id = up_advocate_id r; case_id = up_case_id r;
          doc_type = up_doc_type r
      in if uuid_parse advocate_id = None \<or> uuid_parse case_id = None
         then (Inl (HTTPException 400 ''Invalid UUID format''), file, w)
         else if advocates w advocate_id = None
         then (Inl (HTTPException 404 ''Advocate not found''), file, w)
         else if cases w case_id = None
         then (Inl (HTTPException 404 ''Case not found''), file, w)
         else if (advocate_id, case_id) \<notin> set (advocate_cases w)
         then (Inl (HTTPException 403 ''Advocate does not have permission for this case''),
               file, w)
         else
           (case validate_file file of
              (Inl x, file1) \<Rightarrow> (Inl x, file1, w)
            | (Inr _, file1) \<Rightarrow>
           (let safe_filename = sanitize_filename e (filename file1);
                file_key = file_key_of advocate_id case_id doc_type safe_filename
            in case put_object e file1 file_key w of
                 (Inl x, file2, w1) \<Rightarrow>
                   (Inl (HTTPException 500 ''Failed to upload file to storage''), file2,
                    w1\<lparr> logs := logs w1 @ [''S3 upload failed: '' @ exn_str x] \<rparr>)
               | (Inr s3_url, file2, w1) \<Rightarrow>
                   (let document = \<lparr> doc_type = doc_type, doc_file_name = safe_filename,
                                     doc_file_path = s3_url, doc_created_at = utcnow e,
                                     doc_adv_id = advocate_id, doc_case_id = case_id \<rparr>
                    in if commit_raises e \<or> \<not> document_insertable w1 (uuid4_row e) document
                       then (Inl (HTTPException 400 ''Failed to save document record''), file2,
                             w1\<lparr> trace := trace w1 @ [DbCommit Failed, DbRollback],
                                 logs := logs w1 @ [''Database operation failed: commit failed''] \<rparr>)
                       else (Inr \<lparr> r_document_id = uuid4_row e, r_url = s3_url,
                                   r_file_name = safe_filename \<rparr>, file2,
                             w1\<lparr> documents := (documents w1)(uuid4_row e \<mapsto> document),
                                 trace := trace w1 @ [DbCommit Done] \<rparr>)))))"

text \<open>The \<^verbatim>\<open>finally\<close> clause closes the file on every path.\<close>

definition upload_document :: "env \<Rightarrow> world \<Rightarrow> document_form
    \<Rightarrow> (exn + document_response) \<times> UploadFile \<times> world" where
  "upload_document e w r =
     (case upload_document_try e w r of (res, file, w') \<Rightarrow> (res, close file, w'))"

section \<open>The service with users, cases and files (LexAI/main.py, LexAI/models.py)\<close>

subsection \<open>Tables\<close>

record user =
  usr_name :: string
  usr_email :: string
  usr_role :: string
  usr_created_at :: string

record lex_case =
  lc_name :: string
  lc_client_id :: string
  lc_created_at :: string

record FileMetadata =
  file_name :: string
  case_id :: string
  lawyer_id :: string
  s3_key :: string
  s3_url :: string
  file_size :: nat
  file_type :: string
  uploaded_at :: string
  version_id :: "string option"
  is_deleted :: bool

record lex_world = store +
  users :: "string \<rightharpoonup> user"
  lex_cases :: "string \<rightharpoonup> lex_case"
  files :: "string \<rightharpoonup> FileMetadata"

subsection \<open>LexAI/utils/s3_utils.py\<close>

text \<open>Each function catches the client's exception, logs it and returns \<^verbatim>\<open>None\<close> or
  \<^verbatim>\<open>False\<close>.\<close>

definition upload_to_s3 :: "env \<Rightarrow> UploadFile \<Rightarrow> string \<Rightarrow> 'a store_scheme
    \<Rightarrow> string option \<times> UploadFile \<times> 'a store_scheme" where
  "upload_to_s3 e f key st =
     (if s3_raises e
      then (None, f, st\<lparr> trace := trace st @ [S3Put key Failed],
                         logs := logs st @ [''Error uploading file: put failed''] \<rparr>)
      else (Some (s3_url_of e key), f\<lparr> pos := max (pos f) (length (content f)) \<rparr>,
            st\<lparr> objects := (objects st)(key \<mapsto> drop (pos f) (content f)),
                trace := trace st @ [S3Put key Done] \<rparr>))"

definition delete_from_s3 :: "env \<Rightarrow> string \<Rightarrow> 'a store_scheme \<Rightarrow> bool \<times> 'a store_scheme" where
  "delete_from_s3 e key st =
     (if s3_raises e
      then (False, st\<lparr> trace := trace st @ [S3Delete key Failed],
                        logs := logs st @ [''Error deleting file: delete failed''] \<rparr>)
      else (True, st\<lparr> objects := (objects st)(key := None),
                       trace := trace st @ [S3Delete key Done] \<rparr>))"

definition generate_presigned_url :: "env \<Rightarrow> string \<Rightarrow> 'a store_scheme
    \<Rightarrow> string option \<times> 'a store_scheme" where
  "generate_presigned_url e key st =
     (if s3_raises e
      then (None, st\<lparr> trace := trace st @ [S3Presign key Failed],
                       logs := logs st @ [''Error generating presigned URL: signing failed''] \<rparr>)
      else (Some (signed_url e key), st\<lparr> trace := trace st @ [S3Presign key Done] \<rparr>))"

subsection \<open>upload_file\<close>

record file_form =
  uf_file :: UploadFile
  uf_adv_id :: string
  uf_case_id :: string
  uf_file_type :: string

record file_response =
  r_upload_message :: string
  r_file_id :: string
  r_s3_url :: string

definition allowed_types :: "string list" where
  "allowed_types = [''petition'', ''evidence'', ''application'', ''miscellaneous'']"

text \<open>The constraints LexAI/models.py declares on \<open>files\<close>: the primary key, the two
  foreign keys and \<^verbatim>\<open>unique=True\<close> on \<open>s3_key\<close>.\<close>

definition file_insertable :: "lex_world \<Rightarrow> string \<Rightarrow> FileMetadata \<Rightarrow> bool" where
  "file_insertable w i m =
     (i \<notin> dom (files w) \<and> case_id m \<in> dom (lex_cases w) \<and> lawyer_id m \<in> dom (users w)
      \<and> s3_key m \<notin> s3_key ` ran (files w))"

text \<open>
  \<^verbatim>\<open>upload_file\<close>, lines 89 to 151. The \<^verbatim>\<open>commit\<close> at line 144 stands in no
  \<^verbatim>\<open>try\<close>: its exception leaves the endpoint as raised. The ids are parsed only when
  the record is built, after the object has been stored, and the record holds the
  parsed ids.
\<close>

definition upload_file :: "env \<Rightarrow> lex_world \<Rightarrow> file_form
    \<Rightarrow> (exn + file_response) \<times> UploadFile \<times> lex_world" where
  "upload_file e w r =
     (let file = uf_file r; adv_id = uf_adv_id r; case_id' = uf_case_id r;
          file_type' = uf_file_type r
      in if file_type' \<notin> set allowed_types
         then (Inl (HTTPException 400
                      (''Invalid file_type. Allowed values: ''
                       @ ''{'petition', 'evidence', 'application', 'miscellaneous'}'')),
               file, w\<lparr> logs := logs w @ [''Invalid file_type provided: '' @ file_type'] \<rparr>)
         else if seek_raises e
         then (Inl (HTTPException 500 ''Error processing file size''), file,
               w\<lparr> logs := logs w @ [''Error computing file size: seek failed''] \<rparr>)
         else
           (let file_size' = length (content file);
                file0 = seek 0 file;
                file_key = file_key_of adv_id case_id' file_type' (filename file0)
            in case upload_to_s3 e file0 file_key w of
                 (None, file1, w1) \<Rightarrow>
                   (Inl (HTTPException 500 ''Upload failed''), file1,
                    w1\<lparr> logs := logs w1 @ [''Failed to upload file to S3: '' @ filename file1] \<rparr>)
               | (Some url, file1, w1) \<Rightarrow>
                   (if url = [] then
                      (Inl (HTTPException 500 ''Upload failed''), file1,
                       w1\<lparr> logs := logs w1 @ [''Failed to upload file to S3: '' @ filename file1] \<rparr>)
                    else
                   (case (uuid_parse case_id', uuid_parse adv_id) of
                      (Some c, Some a) \<Rightarrow>
                        (let file_record =
                               \<lparr> file_name = filename file1, case_id = c, lawyer_id = a,
                                 s3_key = file_key, s3_url = url, file_size = file_size',
                                 file_type = file_type', uploaded_at = utcnow e,
                                 version_id = None, is_deleted = False \<rparr>
                         in if commit_raises e \<or> \<not> file_insertable w1 (uuid4_row e) file_record
                            then (Inl (DatabaseError ''commit failed''), file1,
                                  w1\<lparr> trace := trace w1 @ [DbCommit Failed] \<rparr>)
                            else (Inr \<lparr> r_upload_message = ''File uploaded successfully'',
                                        r_file_id = uuid4_row e, r_s3_url = url \<rparr>, file1,
                                  w1\<lparr> files := (files w1)(uuid4_row e \<mapsto> file_record),
                                      trace := trace w1 @ [DbCommit Done],
                                      logs := logs w1 @ [''File uploaded successfully: '' @ uuid4_row e] \<rparr>))
                    | _ \<Rightarrow>
                        (Inl (HTTPException 400
                                ''Invalid IDs provided. Ensure adv_id and case_id are valid UUIDs.''),
                         file1,
                         w1\<lparr> logs := logs w1 @ [''Error creating file metadata record: ''
                                                @ ''badly formed hexadecimal UUID string''] \<rparr>)))))"

subsection \<open>get_file and delete_file\<close>

record get_response =
  g_file_name :: string
  g_presigned_url :: string
  g_file_size :: nat
  g_file_type :: string
  g_uploaded_at :: string

text \<open>The query both endpoints run: the row with this id whose \<open>is_deleted\<close> is false.\<close>

definition live_file :: "lex_world \<Rightarrow> string \<Rightarrow> FileMetadata option" where
  "live_file w i =
     (case files w i of
        None \<Rightarrow> None
      | Some m \<Rightarrow> if is_deleted m = False then Some m else None)"

definition get_file :: "env \<Rightarrow> lex_world \<Rightarrow> string \<Rightarrow> (exn + get_response) \<times> lex_world" where
  "get_file e w file_id =
     (case uuid_parse file_id of
        None \<Rightarrow> (Inl (HTTPException 400 ''Invalid file_id format''), w)
      | Some file_uuid \<Rightarrow>
     (case live_file w file_uuid of
        None \<Rightarrow> (Inl (HTTPException 404 ''File not found''), w)
      | Some file_record \<Rightarrow>
     (case generate_presigned_url e (s3_key file_record) w of
        (None, w1) \<Rightarrow>
          (Inl (HTTPException 500 ''Could not generate access URL''),
           w1\<lparr> logs := logs w1 @ [''Failed to generate presigned URL for file: '' @ file_uuid] \<rparr>)
      | (Some presigned, w1) \<Rightarrow>
          (if presigned = [] then
             (Inl (HTTPException 500 ''Could not generate access URL''),
              w1\<lparr> logs := logs w1 @ [''Failed to generate presigned URL for file: '' @ file_uuid] \<rparr>)
           else
             (Inr \<lparr> g_file_name = file_name file_record, g_presigned_url = presigned,
                    g_file_size = file_size file_record, g_file_type = file_type file_record,
                    g_uploaded_at = uploaded_at file_record \<rparr>, w1)))))"

definition delete_file :: "env \<Rightarrow> lex_world \<Rightarrow> string \<Rightarrow> (exn + string) \<times> lex_world" where
  "delete_file e w file_id =
     (case uuid_parse file_id of
        None \<Rightarrow> (Inl (HTTPException 400 ''Invalid file_id format''), w)
      | Some file_uuid \<Rightarrow>
     (case live_file w file_uuid of
        None \<Rightarrow> (Inl (HTTPException 404 ''File not found''), w)
      | Some file_record \<Rightarrow>
     (case delete_from_s3 e (s3_key file_record) w of
        (False, w1) \<Rightarrow>
          (Inl (HTTPException 500 ''Failed to delete file from storage''),
           w1\<lparr> logs := logs w1 @ [''Failed to delete file from S3: '' @ s3_key file_record] \<rparr>)
      | (True, w1) \<Rightarrow>
          (if commit_raises e
           then (Inl (DatabaseError ''commit failed''),
                 w1\<lparr> trace := trace w1 @ [DbCommit Failed] \<rparr>)
           else (Inr ''File deleted successfully'',
                 w1\<lparr> files := (files w1)(file_uuid \<mapsto> file_record\<lparr> is_deleted := True \<rparr>),
                     trace := trace w1 @ [DbCommit Done],
                     logs := logs w1 @ [''File deleted successfully: '' @ file_uuid] \<rparr>)))))"

section \<open>Concrete data for the examples\<close>

text \<open>The three identifiers of test_upload.py and further ones of the same shape.\<close>

definition id_a :: string where "id_a = ''02c20b1c-7325-40cc-92dc-35d33de9208f''"
definition id_b :: string where "id_b = ''7d3e5a10-48f2-4b6c-a1d9-0e2f4c6a8b13''"
definition id_c :: string where "id_c = ''151deed3-ce59-4f2a-af97-3490b86b2891''"
definition id_k :: string where "id_k = ''ac965b3d-5ab4-4c41-8268-709b6a17c281''"
definition id_f :: string where "id_f = ''3a1b5c7d-9e0f-4a2b-8c4d-6e8f0a1b3c5d''"
definition id_n :: string where "id_n = ''9b2d1f0e-3c4a-4d5b-8e6f-7a8b9c0d1e2f''"
definition id_m :: string where "id_m = ''c0ffee00-1234-4abc-9def-0123456789ab''"
definition id_r :: string where "id_r = ''4e8c7a6b-5d4f-4c3b-9a2e-1f0d9c8b7a6e''"

definition env0 :: env where
  "env0 = \<lparr> bucket = ''lexai'', uuid4_name = id_n, uuid4_row = id_r,
            utcnow = ''2025-01-01 00:00:00'',
            signed_url = (\<lambda>k. ''https://lexai.s3.amazonaws.com/'' @ k @ ''?X-Amz-Expires=3600''),
            s3_raises = False, commit_raises = False, seek_raises = False \<rparr>"

definition empty_world :: world where
  "empty_world = \<lparr> objects = Map.empty, trace = [], logs = [],
      advocates = Map.empty, clients = Map.empty, cases = Map.empty, advocate_cases = [],
      documents = Map.empty \<rparr>"

text \<open>Advocates \<open>id_a\<close> and \<open>id_b\<close>, client \<open>id_c\<close>, and case \<open>id_k\<close> of that
  client, handled by \<open>id_a\<close> alone.\<close>

definition world1 :: world where
  "world1 = empty_world
     \<lparr> advocates := [id_a \<mapsto> \<lparr> adv_name = ''A'', adv_email = ''a@x.com'' \<rparr>,
                     id_b \<mapsto> \<lparr> adv_name = ''B'', adv_email = ''b@x.com'' \<rparr>],
       clients := [id_c \<mapsto> \<lparr> cl_name = ''C'', cl_contact_number = ''1'', cl_address = ''x'' \<rparr>],
       cases := [id_k \<mapsto> \<lparr> cs_name = ''Case1'', cs_case_type = ''civil'', cs_client_id = id_c,
                            cs_description = None, cs_filing_date = ''2025-01-01 00:00:00'' \<rparr>],
       advocate_cases := [(id_a, id_k)] \<rparr>"

definition form0 :: case_form where
  "form0 = \<lparr> case_name = ''Case1'', f_advocate_id = id_a, f_client_id = id_c,
             f_case_type = ''civil'', f_case_description = None, f_filing_date = None \<rparr>"

definition brief :: UploadFile where
  "brief = \<lparr> filename = ''Brief.PDF'', content = ''0123456789'', pos = 0, closed = False \<rparr>"

definition upload0 :: document_form where
  "upload0 = \<lparr> up_file = brief, up_advocate_id = id_a, up_case_id = id_k,
               up_doc_type = ''evidence'' \<rparr>"

text \<open>A file of 11 MiB.\<close>

definition big :: UploadFile where
  "big = \<lparr> filename = ''big.pdf'', content = replicate (11 * 1024 * 1024) CHR ''x'',
           pos = 0, closed = False \<rparr>"

text \<open>Users \<open>id_a\<close> and \<open>id_b\<close>, a case registered for \<open>id_a\<close>
  (\<^verbatim>\<open>register_case\<close> of LexAI stores the advocate as \<open>client_id\<close>), and two stored
  files.\<close>

definition meta1 :: FileMetadata where
  "meta1 = \<lparr> file_name = ''note.txt'', case_id = id_k, lawyer_id = id_a,
             s3_key = file_key_of id_a id_k ''petition'' ''note.txt'',
             s3_url = ''https://lexai.s3.amazonaws.com/''
                      @ file_key_of id_a id_k ''petition'' ''note.txt'',
             file_size = 5, file_type = ''petition'', uploaded_at = ''2025-01-01 00:00:00'',
             version_id = None, is_deleted = False \<rparr>"

definition meta2 :: FileMetadata where
  "meta2 = meta1 \<lparr> file_name := ''plan.txt'',
                     s3_key := file_key_of id_a id_k ''evidence'' ''plan.txt'',
                     s3_url := ''https://lexai.s3.amazonaws.com/''
                               @ file_key_of id_a id_k ''evidence'' ''plan.txt'',
                     file_type := ''evidence'' \<rparr>"

definition lex1 :: lex_world where
  "lex1 = \<lparr> objects = [file_key_of id_a id_k ''petition'' ''note.txt'' \<mapsto> ''hello'',
                       file_key_of id_a id_k ''evidence'' ''plan.txt'' \<mapsto> ''world''],
            trace = [], logs = [],
            users = [id_a \<mapsto> \<lparr> usr_name = ''A'', usr_email = ''a@x.com'', usr_role = ''Lawyer'',
                                  usr_created_at = ''2025-01-01 00:00:00'' \<rparr>,
                     id_b \<mapsto> \<lparr> usr_name = ''B'', usr_email = ''b@x.com'', usr_role = ''Lawyer'',
                                  usr_created_at = ''2025-01-01 00:00:00'' \<rparr>],
            lex_cases = [id_k \<mapsto> \<lparr> lc_name = ''Case1'', lc_client_id = id_a,
                                      lc_created_at = ''2025-01-01 00:00:00'' \<rparr>],
            files = [id_f \<mapsto> meta1, id_m \<mapsto> meta2] \<rparr>"

definition upload1 :: file_form where
  "upload1 = \<lparr> uf_file = brief\<lparr> filename := ''test.txt'' \<rparr>, uf_adv_id = id_b,
               uf_case_id = id_k, uf_file_type = ''petition'' \<rparr>"

section \<open>Auxiliary facts\<close>

lemma uuid_parse_id_a: "uuid_parse id_a = Some id_a"
  unfolding id_a_def by code_simp

lemma uuid_parse_id_b: "uuid_parse id_b = Some id_b"
  unfolding id_b_def by code_simp

lemma uuid_parse_id_c: "uuid_parse id_c = Some id_c"
  unfolding id_c_def by code_simp

lemma uuid_parse_id_k: "uuid_parse id_k = Some id_k"
  unfolding id_k_def by code_simp

lemma uuid_parse_id_f: "uuid_parse id_f = Some id_f"
  unfolding id_f_def by code_simp

lemma lex1_file: "files lex1 id_f = Some meta1"
  by (simp add: lex1_def id_f_def id_m_def)

lemma delete_file_lex1:
  "delete_file env0 lex1 id_f
     = (Inr ''File deleted successfully'', snd (delete_file env0 lex1 id_f))"
  by (simp add: delete_file_def live_file_def delete_from_s3_def uuid_parse_id_f lex1_file
      meta1_def env0_def)

lemma digits_of_404: "digits_of 404 = ''404''"
  by code_simp


subsection \<open>The size loop\<close>

lemma read_chunk_empty:
  "pos f \<le> length (content f) \<Longrightarrow>
   (fst (read chunk_size f) = []) = (pos f = length (content f))"
  by (auto simp: read_def chunk_size_def)

lemma read_chunk_length:
  "pos f \<le> length (content f) \<Longrightarrow>
   length (fst (read chunk_size f)) = min 1024 (length (content f) - pos f)"
  by (simp add: read_def chunk_size_def min_def)

lemma read_chunk_snd:
  "snd (read chunk_size f) = f\<lparr> pos := pos f + length (fst (read chunk_size f)) \<rparr>"
  by (simp add: read_def)

text \<open>The loop keeps the running count equal to the position, which stays a multiple
  of the chunk size until the last, shorter chunk.\<close>

lemma size_loop_run:
  "pos f \<le> length (content f) \<Longrightarrow> pos f \<le> MAX_FILE_SIZE \<Longrightarrow> n = pos f \<Longrightarrow>
   (1024 dvd pos f \<or> pos f = length (content f)) \<Longrightarrow>
   size_loop n f =
     (if length (content f) > MAX_FILE_SIZE
      then (Inl size_exceeded, f\<lparr> pos := min (length (content f)) (MAX_FILE_SIZE + chunk_size) \<rparr>)
      else (Inr (length (content f)), f\<lparr> pos := length (content f) \<rparr>))"
proof (induction n f rule: size_loop.induct)
  case (1 file_size f)
  let ?L = "length (content f)"
  let ?chunk = "fst (read chunk_size f)"
  let ?f' = "snd (read chunk_size f)"
  have len: "length ?chunk = min 1024 (?L - pos f)"
    using 1 by (simp add: read_chunk_length)
  have f': "?f' = f\<lparr> pos := pos f + min 1024 (?L - pos f) \<rparr>"
    using len by (simp add: read_chunk_snd)
  show ?case
  proof (cases "pos f = ?L")
    case True
    then have "?chunk = []" using 1 by (simp add: read_chunk_empty)
    then show ?thesis
      using True 1(2-) f' by (subst size_loop.simps) (simp add: Let_def)
  next
    case False
    then have ne: "?chunk \<noteq> []" using 1 by (simp add: read_chunk_empty)
    have dv: "1024 dvd pos f" using False 1 by simp
    show ?thesis
    proof (cases "file_size + length ?chunk > MAX_FILE_SIZE")
      case True
      have "pos f + min 1024 (?L - pos f) = min ?L (MAX_FILE_SIZE + chunk_size)"
        using True len 1(2-) dv False
        unfolding MAX_FILE_SIZE_def chunk_size_def by (auto simp: min_def elim: dvdE)
      moreover have "?L > MAX_FILE_SIZE"
        using True len 1(2-) by (simp add: min_def split: if_splits)
      ultimately show ?thesis
        using True ne f' by (subst size_loop.simps) (simp add: Let_def)
    next
      case le: False
      have step: "size_loop file_size f = size_loop (file_size + length ?chunk) ?f'"
        using le ne by (subst size_loop.simps) (simp add: Let_def)
      have p': "pos ?f' = pos f + min 1024 (?L - pos f)" using f' by simp
      have c': "content ?f' = content f" using f' by simp
      have IH: "size_loop (file_size + length ?chunk) ?f' =
         (if length (content ?f') > MAX_FILE_SIZE
          then (Inl size_exceeded,
                ?f'\<lparr> pos := min (length (content ?f')) (MAX_FILE_SIZE + chunk_size) \<rparr>)
          else (Inr (length (content ?f')), ?f'\<lparr> pos := length (content ?f') \<rparr>))"
      proof (rule 1(1)[OF refl refl ne])
        show "\<not> MAX_FILE_SIZE < file_size + length ?chunk" using le .
        show "pos ?f' \<le> length (content ?f')" using p' c' 1(2) by (auto simp: min_def)
        show "pos ?f' \<le> MAX_FILE_SIZE" using p' le len 1(4) by (auto simp: min_def)
        show "file_size + length ?chunk = pos ?f'" using p' len 1(4) by (auto simp: min_def)
        show "1024 dvd pos ?f' \<or> pos ?f' = length (content ?f')"
          using p' c' dv 1(2) by (auto simp: min_def)
      qed
      show ?thesis unfolding step IH using f' by simp
    qed
  qed
qed

lemma size_loop_fresh:
  "pos f = 0 \<Longrightarrow>
   size_loop 0 f =
     (if length (content f) > MAX_FILE_SIZE
      then (Inl size_exceeded, f\<lparr> pos := min (length (content f)) (MAX_FILE_SIZE + chunk_size) \<rparr>)
      else (Inr (length (content f)), f\<lparr> pos := length (content f) \<rparr>))"
  by (rule size_loop_run) simp_all

lemma validate_file_fresh:
  "pos f = 0 \<Longrightarrow>
   validate_file f =
     (if length (content f) > MAX_FILE_SIZE
      then (Inl size_exceeded, f\<lparr> pos := min (length (content f)) (MAX_FILE_SIZE + chunk_size) \<rparr>)
      else if lower (suffix (filename f)) \<notin> set ALLOWED_EXTENSIONS
      then (Inl type_not_allowed, f)
      else (Inr (), f))"
  by (simp add: validate_file_def size_loop_fresh seek_def)

subsection \<open>delete_file by cases\<close>

lemma delete_file_live:
  assumes "uuid_parse file_id = Some u" "files w u = Some m" "is_deleted m = False"
  shows "delete_file e w file_id =
    (if s3_raises e then
       (Inl (HTTPException 500 ''Failed to delete file from storage''),
        w\<lparr> trace := trace w @ [S3Delete (s3_key m) Failed],
           logs := logs w @ [''Error deleting file: delete failed'',
                             ''Failed to delete file from S3: '' @ s3_key m] \<rparr>)
     else if commit_raises e then
       (Inl (DatabaseError ''commit failed''),
        w\<lparr> objects := (objects w)(s3_key m := None),
           trace := trace w @ [S3Delete (s3_key m) Done, DbCommit Failed] \<rparr>)
     else
       (Inr ''File deleted successfully'',
        w\<lparr> objects := (objects w)(s3_key m := None),
           trace := trace w @ [S3Delete (s3_key m) Done, DbCommit Done],
           logs := logs w @ [''File deleted successfully: '' @ u],
           files := (files w)(u \<mapsto> m\<lparr> is_deleted := True \<rparr>) \<rparr>))"
  using assms by (simp add: delete_file_def live_file_def delete_from_s3_def)

lemma delete_file_success:
  assumes "delete_file e w file_id = (Inr msg, w')"
  shows "\<exists>u m. uuid_parse file_id = Some u \<and> files w u = Some m \<and> is_deleted m = False
           \<and> \<not> s3_raises e \<and> \<not> commit_raises e
           \<and> w' = w\<lparr> objects := (objects w)(s3_key m := None),
                     trace := trace w @ [S3Delete (s3_key m) Done, DbCommit Done],
                     logs := logs w @ [''File deleted successfully: '' @ u],
                     files := (files w)(u \<mapsto> m\<lparr> is_deleted := True \<rparr>) \<rparr>"
  using assms
  by (auto simp: delete_file_def live_file_def delete_from_s3_def split: option.splits if_splits)

subsection \<open>What validation leaves of the stream\<close>

lemma size_loop_keeps:
  "filename (snd (size_loop n f)) = filename f \<and> content (snd (size_loop n f)) = content f
   \<and> closed (snd (size_loop n f)) = closed f"
proof (induction n f rule: size_loop.induct)
  case (1 file_size f)
  show ?case
  proof (cases "fst (read chunk_size f) = []")
    case True
    then show ?thesis
      by (subst (1 2 3) size_loop.simps) (simp add: Let_def read_def)
  next
    case ne: False
    show ?thesis
    proof (cases "file_size + length (fst (read chunk_size f)) > MAX_FILE_SIZE")
      case True
      then show ?thesis using ne
        by (subst (1 2 3) size_loop.simps) (simp add: Let_def read_def)
    next
      case False
      have step: "size_loop file_size f
          = size_loop (file_size + length (fst (read chunk_size f))) (snd (read chunk_size f))"
        using False ne by (subst size_loop.simps) (simp add: Let_def)
      show ?thesis
        unfolding step using 1 [OF refl refl ne False] by (simp add: read_def)
    qed
  qed
qed

lemma validate_file_keeps:
  "filename (snd (validate_file f)) = filename f \<and> content (snd (validate_file f)) = content f
   \<and> closed (snd (validate_file f)) = closed f"
proof (cases "size_loop 0 f")
  case (Pair v f1)
  with size_loop_keeps [of 0 f] show ?thesis
    by (cases v) (simp_all add: validate_file_def seek_def Let_def)
qed

lemma validate_file_ok:
  assumes "validate_file f = (Inr u, f1)"
  shows "pos f1 = 0 \<and> filename f1 = filename f \<and> content f1 = content f
         \<and> lower (suffix (filename f)) \<in> set ALLOWED_EXTENSIONS"
proof (cases "size_loop 0 f")
  case (Pair v f0)
  from validate_file_keeps [of f] assms
  have keep: "filename f1 = filename f" "content f1 = content f" by simp_all
  from size_loop_keeps [of 0 f] Pair have f0: "filename f0 = filename f" by simp
  from assms Pair f0 have "pos f1 = 0 \<and> lower (suffix (filename f)) \<in> set ALLOWED_EXTENSIONS"
    by (cases v) (auto simp: validate_file_def seek_def Let_def split: if_splits)
  with keep show ?thesis by simp
qed

subsection \<open>upload_document by cases\<close>

text \<open>A request that passes the four checks and the validation reaches the object
  write; what follows depends on the store and the commit alone.\<close>

lemma upload_document_checked:
  assumes ids: "uuid_parse (up_advocate_id r) \<noteq> None" "uuid_parse (up_case_id r) \<noteq> None"
    and rows: "advocates w (up_advocate_id r) \<noteq> None" "cases w (up_case_id r) \<noteq> None"
    and perm: "(up_advocate_id r, up_case_id r) \<in> set (advocate_cases w)"
    and valid: "validate_file (up_file r) = (Inr u, f1)"
    and name: "name = sanitize_filename e (filename (up_file r))"
    and key: "key = file_key_of (up_advocate_id r) (up_case_id r) (up_doc_type r) name"
  shows "upload_document e w r =
    (if s3_raises e then
       (Inl (HTTPException 500 ''Failed to upload file to storage''), close f1,
        w\<lparr> trace := trace w @ [S3Put key Failed],
           logs := logs w @ [''S3 upload failed: put failed''] \<rparr>)
     else if commit_raises e \<or> uuid4_row e \<in> dom (documents w) then
       (Inl (HTTPException 400 ''Failed to save document record''),
        close (f1\<lparr> pos := length (content f1) \<rparr>),
        w\<lparr> objects := (objects w)(key \<mapsto> content (up_file r)),
           trace := trace w @ [S3Put key Done, DbCommit Failed, DbRollback],
           logs := logs w @ [''Database operation failed: commit failed''] \<rparr>)
     else
       (Inr \<lparr> r_document_id = uuid4_row e, r_url = s3_url_of e key, r_file_name = name \<rparr>,
        close (f1\<lparr> pos := length (content f1) \<rparr>),
        w\<lparr> objects := (objects w)(key \<mapsto> content (up_file r)),
           trace := trace w @ [S3Put key Done, DbCommit Done],
           documents := (documents w)(uuid4_row e \<mapsto>
              \<lparr> doc_type = up_doc_type r, doc_file_name = name,
                doc_file_path = s3_url_of e key, doc_created_at = utcnow e,
                doc_adv_id = up_advocate_id r, doc_case_id = up_case_id r \<rparr>) \<rparr>))"
proof -
  from validate_file_ok [OF valid]
  have f1: "pos f1 = 0" "filename f1 = filename (up_file r)" "content f1 = content (up_file r)"
    by simp_all
  from rows have fk: "up_advocate_id r \<in> dom (advocates w)" "up_case_id r \<in> dom (cases w)"
    by (simp_all add: dom_def)
  from ids obtain a c where p: "uuid_parse (up_advocate_id r) = Some a"
    "uuid_parse (up_case_id r) = Some c" by auto
  from rows obtain ra rc where q: "advocates w (up_advocate_id r) = Some ra"
    "cases w (up_case_id r) = Some rc" by auto
  show ?thesis
    using perm fk
    by (simp add: upload_document_def upload_document_try_def Let_def valid f1 name key
        put_object_def document_insertable_def p q)
qed

text \<open>Every other request is turned away with the tables, the store and the trace as
  they were.\<close>

lemma upload_document_rejected:
  assumes "uuid_parse (up_advocate_id r) = None \<or> uuid_parse (up_case_id r) = None
           \<or> advocates w (up_advocate_id r) = None \<or> cases w (up_case_id r) = None
           \<or> (up_advocate_id r, up_case_id r) \<notin> set (advocate_cases w)
           \<or> fst (validate_file (up_file r)) = Inl x"
  shows "\<exists>y. fst (upload_document e w r) = Inl y \<and> snd (snd (upload_document e w r)) = w"
proof (cases "validate_file (up_file r)")
  case (Pair v f1)
  show ?thesis
  proof (cases v)
    case (Inl y)
    with Pair show ?thesis
      by (simp add: upload_document_def upload_document_try_def Let_def)
  next
    case (Inr u)
    with Pair assms show ?thesis
      by (auto simp: upload_document_def upload_document_try_def Let_def)
  qed
qed

text \<open>Every request falls under one of the two lemmas.\<close>

lemma upload_document_split:
  "\<exists>y. fst (upload_document e w r) = Inl y \<and> snd (snd (upload_document e w r)) = w
   \<or> (\<exists>u f1. validate_file (up_file r) = (Inr u, f1)
        \<and> uuid_parse (up_advocate_id r) \<noteq> None \<and> uuid_parse (up_case_id r) \<noteq> None
        \<and> advocates w (up_advocate_id r) \<noteq> None \<and> cases w (up_case_id r) \<noteq> None
        \<and> (up_advocate_id r, up_case_id r) \<in> set (advocate_cases w))"
proof (cases "validate_file (up_file r)")
  case (Pair v f1)
  show ?thesis
  proof (cases v)
    case (Inl x)
    with Pair have "fst (validate_file (up_file r)) = Inl x" by simp
    then show ?thesis using upload_document_rejected [of r w x e] by blast
  next
    case (Inr u)
    with Pair have v: "validate_file (up_file r) = (Inr u, f1)" by simp
    show ?thesis
    proof (cases "uuid_parse (up_advocate_id r) = None \<or> uuid_parse (up_case_id r) = None
           \<or> advocates w (up_advocate_id r) = None \<or> cases w (up_case_id r) = None
           \<or> (up_advocate_id r, up_case_id r) \<notin> set (advocate_cases w)")
      case True
      then show ?thesis using upload_document_rejected [of r w undefined e] by blast
    next
      case False
      with v show ?thesis by blast
    qed
  qed
qed

subsection \<open>upload_file by cases\<close>

lemma upload_file_rejected:
  assumes "uf_file_type r \<notin> set allowed_types \<or> seek_raises e"
  shows "\<exists>y l. fst (upload_file e w r) = Inl y \<and> snd (snd (upload_file e w r)) = w\<lparr> logs := l \<rparr>"
  using assms by (auto simp: upload_file_def Let_def)

lemma upload_file_put_failed:
  assumes "uf_file_type r \<in> set allowed_types" "\<not> seek_raises e" "s3_raises e"
    and key: "key = file_key_of (uf_adv_id r) (uf_case_id r) (uf_file_type r) (filename (uf_file r))"
  shows "upload_file e w r =
    (Inl (HTTPException 500 ''Upload failed''), seek 0 (uf_file r),
     w\<lparr> trace := trace w @ [S3Put key Failed],
        logs := logs w @ [''Error uploading file: put failed'',
                          ''Failed to upload file to S3: '' @ filename (uf_file r)] \<rparr>)"
  using assms(1-3)
  by (simp add: upload_file_def Let_def upload_to_s3_def seek_def key)

lemma upload_file_bad_ids:
  assumes "uf_file_type r \<in> set allowed_types" "\<not> seek_raises e" "\<not> s3_raises e"
    and "uuid_parse (uf_case_id r) = None \<or> uuid_parse (uf_adv_id r) = None"
    and key: "key = file_key_of (uf_adv_id r) (uf_case_id r) (uf_file_type r) (filename (uf_file r))"
  shows "upload_file e w r =
    (Inl (HTTPException 400 ''Invalid IDs provided. Ensure adv_id and case_id are valid UUIDs.''),
     (uf_file r)\<lparr> pos := length (content (uf_file r)) \<rparr>,
     w\<lparr> objects := (objects w)(key \<mapsto> content (uf_file r)),
        trace := trace w @ [S3Put key Done],
        logs := logs w @ [''Error creating file metadata record: ''
                          @ ''badly formed hexadecimal UUID string''] \<rparr>)"
  using assms(1-4)
  by (auto simp: upload_file_def Let_def upload_to_s3_def seek_def key s3_url_of_def
      split: option.splits)

lemma upload_file_stored:
  assumes "uf_file_type r \<in> set allowed_types" "\<not> seek_raises e" "\<not> s3_raises e"
    and ids: "uuid_parse (uf_case_id r) = Some c" "uuid_parse (uf_adv_id r) = Some a"
    and key: "key = file_key_of (uf_adv_id r) (uf_case_id r) (uf_file_type r) (filename (uf_file r))"
  shows "upload_file e w r =
    (if commit_raises e \<or> uuid4_row e \<in> dom (files w) \<or> c \<notin> dom (lex_cases w)
        \<or> a \<notin> dom (users w) \<or> key \<in> s3_key ` ran (files w)
     then (Inl (DatabaseError ''commit failed''),
           (uf_file r)\<lparr> pos := length (content (uf_file r)) \<rparr>,
           w\<lparr> objects := (objects w)(key \<mapsto> content (uf_file r)),
              trace := trace w @ [S3Put key Done, DbCommit Failed] \<rparr>)
     else (Inr \<lparr> r_upload_message = ''File uploaded successfully'',
                 r_file_id = uuid4_row e, r_s3_url = s3_url_of e key \<rparr>,
           (uf_file r)\<lparr> pos := length (content (uf_file r)) \<rparr>,
           w\<lparr> objects := (objects w)(key \<mapsto> content (uf_file r)),
              trace := trace w @ [S3Put key Done, DbCommit Done],
              logs := logs w @ [''File uploaded successfully: '' @ uuid4_row e],
              files := (files w)(uuid4_row e \<mapsto>
                 \<lparr> file_name = filename (uf_file r), case_id = c, lawyer_id = a,
                   s3_key = key, s3_url = s3_url_of e key,
                   file_size = length (content (uf_file r)),
                   file_type = uf_file_type r, uploaded_at = utcnow e,
                   version_id = None, is_deleted = False \<rparr>) \<rparr>))"
proof -
  have url: "s3_url_of e key \<noteq> []" by (simp add: s3_url_of_def)
  show ?thesis
    using assms(1-3) url
    by (simp add: upload_file_def Let_def upload_to_s3_def seek_def key [symmetric] ids
        file_insertable_def)
qed

subsection \<open>The ways a run can end\<close>

text \<open>\<^verbatim>\<open>upload_document\<close>: turned away before any call leaves the process; the
  object write failed; the object was written and the commit failed; both succeeded.\<close>

lemma upload_document_outcomes:
  assumes run: "upload_document e w r = (res, f', w')"
    and name: "name = sanitize_filename e (filename (up_file r))"
    and key: "key = file_key_of (up_advocate_id r) (up_case_id r) (up_doc_type r) name"
  shows "((\<exists>y. res = Inl y) \<and> w' = w)
    \<or> (s3_raises e \<and> res = Inl (HTTPException 500 ''Failed to upload file to storage'')
        \<and> w' = w\<lparr> trace := trace w @ [S3Put key Failed],
                  logs := logs w @ [''S3 upload failed: put failed''] \<rparr>)
    \<or> (\<not> s3_raises e \<and> (commit_raises e \<or> uuid4_row e \<in> dom (documents w))
        \<and> res = Inl (HTTPException 400 ''Failed to save document record'')
        \<and> w' = w\<lparr> objects := (objects w)(key \<mapsto> content (up_file r)),
                  trace := trace w @ [S3Put key Done, DbCommit Failed, DbRollback],
                  logs := logs w @ [''Database operation failed: commit failed''] \<rparr>)
    \<or> (\<not> s3_raises e \<and> \<not> commit_raises e \<and> uuid4_row e \<notin> dom (documents w)
        \<and> fst (validate_file (up_file r)) = Inr ()
        \<and> (up_advocate_id r, up_case_id r) \<in> set (advocate_cases w)
        \<and> res = Inr \<lparr> r_document_id = uuid4_row e, r_url = s3_url_of e key,
                       r_file_name = name \<rparr>
        \<and> w' = w\<lparr> objects := (objects w)(key \<mapsto> content (up_file r)),
                  trace := trace w @ [S3Put key Done, DbCommit Done],
                  documents := (documents w)(uuid4_row e \<mapsto>
                     \<lparr> doc_type = up_doc_type r, doc_file_name = name,
                       doc_file_path = s3_url_of e key, doc_created_at = utcnow e,
                       doc_adv_id = up_advocate_id r, doc_case_id = up_case_id r \<rparr>) \<rparr>)"
proof -
  from run have res: "res = fst (upload_document e w r)"
    and w': "w' = snd (snd (upload_document e w r))" by simp_all
  from upload_document_split [of e w r] show ?thesis
  proof (elim exE disjE conjE)
    fix y assume "fst (upload_document e w r) = Inl y" "snd (snd (upload_document e w r)) = w"
    then show ?thesis by (simp add: res w')
  next
    fix y u f1
    assume v: "validate_file (up_file r) = (Inr u, f1)"
      and c: "uuid_parse (up_advocate_id r) \<noteq> None" "uuid_parse (up_case_id r) \<noteq> None"
        "advocates w (up_advocate_id r) \<noteq> None" "cases w (up_case_id r) \<noteq> None"
        "(up_advocate_id r, up_case_id r) \<in> set (advocate_cases w)"
    have eq: "upload_document e w r = (res, f', w')" by (rule run)
    show ?thesis
    proof (cases "s3_raises e")
      case True
      with eq show ?thesis
        unfolding upload_document_checked [OF c v name key] by simp
    next
      case up: False
      show ?thesis
      proof (cases "commit_raises e \<or> uuid4_row e \<in> dom (documents w)")
        case True
        with eq up show ?thesis
          unfolding upload_document_checked [OF c v name key] by auto
      next
        case False
        with eq up v c(5) show ?thesis
          unfolding upload_document_checked [OF c v name key] by auto
      qed
    qed
  qed
qed

text \<open>\<^verbatim>\<open>upload_file\<close> has a fifth way: the object written and the ids then found
  malformed.\<close>

lemma upload_file_outcomes:
  assumes run: "upload_file e w r = (res, f', w')"
    and key: "key = file_key_of (uf_adv_id r) (uf_case_id r) (uf_file_type r) (filename (uf_file r))"
  shows "((\<exists>y. res = Inl y) \<and> (\<exists>l. w' = w\<lparr> logs := l \<rparr>))
    \<or> (s3_raises e \<and> res = Inl (HTTPException 500 ''Upload failed'')
        \<and> (\<exists>l. w' = w\<lparr> trace := trace w @ [S3Put key Failed], logs := l \<rparr>))
    \<or> (\<not> s3_raises e
        \<and> res = Inl (HTTPException 400
                    ''Invalid IDs provided. Ensure adv_id and case_id are valid UUIDs.'')
        \<and> (\<exists>l. w' = w\<lparr> objects := (objects w)(key \<mapsto> content (uf_file r)),
                       trace := trace w @ [S3Put key Done], logs := l \<rparr>))
    \<or> (\<not> s3_raises e \<and> res = Inl (DatabaseError ''commit failed'')
        \<and> w' = w\<lparr> objects := (objects w)(key \<mapsto> content (uf_file r)),
                  trace := trace w @ [S3Put key Done, DbCommit Failed] \<rparr>)
    \<or> (\<not> s3_raises e \<and> \<not> commit_raises e \<and> uuid4_row e \<notin> dom (files w)
        \<and> key \<notin> s3_key ` ran (files w)
        \<and> res = Inr \<lparr> r_upload_message = ''File uploaded successfully'',
                       r_file_id = uuid4_row e, r_s3_url = s3_url_of e key \<rparr>
        \<and> (\<exists>c a. uuid_parse (uf_case_id r) = Some c \<and> uuid_parse (uf_adv_id r) = Some a
             \<and> w' = w\<lparr> objects := (objects w)(key \<mapsto> content (uf_file r)),
                  trace := trace w @ [S3Put key Done, DbCommit Done],
                  logs := logs w @ [''File uploaded successfully: '' @ uuid4_row e],
                  files := (files w)(uuid4_row e \<mapsto>
                     \<lparr> file_name = filename (uf_file r), case_id = c, lawyer_id = a,
                       s3_key = key, s3_url = s3_url_of e key,
                       file_size = length (content (uf_file r)),
                       file_type = uf_file_type r, uploaded_at = utcnow e,
                       version_id = None, is_deleted = False \<rparr>) \<rparr>))"
proof (cases "uf_file_type r \<notin> set allowed_types \<or> seek_raises e")
  case True
  from upload_file_rejected [OF True, of w] run show ?thesis by auto
next
  case False
  then have ok: "uf_file_type r \<in> set allowed_types" "\<not> seek_raises e" by simp_all
  show ?thesis
  proof (cases "s3_raises e")
    case True
    with run show ?thesis
      unfolding upload_file_put_failed [OF ok True key] by auto
  next
    case up: False
    show ?thesis
    proof (cases "uuid_parse (uf_case_id r) = None \<or> uuid_parse (uf_adv_id r) = None")
      case True
      with run up show ?thesis
        unfolding upload_file_bad_ids [OF ok up True key] by auto
    next
      case False
      then obtain c a where ids: "uuid_parse (uf_case_id r) = Some c"
        "uuid_parse (uf_adv_id r) = Some a" by auto
      show ?thesis
      proof (cases "commit_raises e \<or> uuid4_row e \<in> dom (files w) \<or> c \<notin> dom (lex_cases w)
          \<or> a \<notin> dom (users w) \<or> key \<in> s3_key ` ran (files w)")
        case True
        with run up show ?thesis
          unfolding upload_file_stored [OF ok up ids key] by simp
      next
        case False
        with run up ids show ?thesis
          unfolding upload_file_stored [OF ok up ids key] by simp
      qed
    qed
  qed
qed

subsection \<open>File names and keys\<close>

lemma split_on_no_sep: "p \<in> set (split_on d s) \<Longrightarrow> d \<notin> set p"
proof (induction s arbitrary: p)
  case Nil
  then show ?case by simp
next
  case (Cons c cs)
  show ?case
  proof (cases "c = d")
    case True
    with Cons show ?thesis by auto
  next
    case False
    show ?thesis
    proof (cases "split_on d cs")
      case Nil
      with Cons.prems False show ?thesis by simp
    next
      case (Cons q qs)
      with Cons.prems False have "p = c # q \<or> p \<in> set qs" by simp
      with Cons.IH [of q] Cons.IH [of p] Cons False show ?thesis by auto
    qed
  qed
qed

lemma path_name_no_sep: "CHR ''/'' \<notin> set (path_name s)"
proof (cases "rev (filter (\<lambda>p. p \<noteq> [] \<and> p \<noteq> ''.'') (split_on CHR ''/'' s))")
  case Nil
  then show ?thesis by (simp add: path_name_def)
next
  case (Cons p ps)
  then have "p \<in> set (rev (filter (\<lambda>p. p \<noteq> [] \<and> p \<noteq> ''.'') (split_on CHR ''/'' s)))"
    by simp
  then have "p \<in> set (split_on CHR ''/'' s)" by simp
  from split_on_no_sep [OF this] Cons show ?thesis by (simp add: path_name_def)
qed

lemma suffix_no_sep: "CHR ''/'' \<notin> set (suffix s)"
proof -
  have "set (suffix s) \<subseteq> set (path_name s)"
    by (auto simp: suffix_def Let_def dest: in_set_dropD)
  with path_name_no_sep [of s] show ?thesis by blast
qed

text \<open>A key determines its last component.\<close>

lemma key_last_component:
  assumes "CHR ''/'' \<notin> set n1" and "CHR ''/'' \<notin> set n2"
    and "file_key_of a1 c1 t1 n1 = file_key_of a2 c2 t2 n2"
  shows "n1 = n2"
proof -
  have last: "takeWhile (\<lambda>x. x \<noteq> CHR ''/'') (rev (file_key_of a c t n)) = rev n"
    if "CHR ''/'' \<notin> set n" for a c t n
  proof -
    have "takeWhile (\<lambda>x. x \<noteq> CHR ''/'') (rev n @ CHR ''/'' # rev (a @ ''/'' @ c @ ''/'' @ t))
        = rev n"
      using that by (subst takeWhile_append2) auto
    then show ?thesis by (simp add: file_key_of_def)
  qed
  from assms(3) have "takeWhile (\<lambda>x. x \<noteq> CHR ''/'') (rev (file_key_of a1 c1 t1 n1))
      = takeWhile (\<lambda>x. x \<noteq> CHR ''/'') (rev (file_key_of a2 c2 t2 n2))" by simp
  then have "rev n1 = rev n2" by (simp add: last assms(1,2))
  then show ?thesis by simp
qed

lemma keys_differ:
  assumes "u1 \<noteq> u2" and "length u1 = length u2"
    and "CHR ''/'' \<notin> set u1" and "CHR ''/'' \<notin> set u2"
  shows "file_key_of a1 c1 t1 (u1 @ suffix s1) \<noteq> file_key_of a2 c2 t2 (u2 @ suffix s2)"
proof
  assume "file_key_of a1 c1 t1 (u1 @ suffix s1) = file_key_of a2 c2 t2 (u2 @ suffix s2)"
  moreover have "CHR ''/'' \<notin> set (u1 @ suffix s1)" "CHR ''/'' \<notin> set (u2 @ suffix s2)"
    using assms(3,4) suffix_no_sep by simp_all
  ultimately have "u1 @ suffix s1 = u2 @ suffix s2"
    by (rule key_last_component [rotated 2])
  with assms(2) have "u1 = u2" by simp
  with assms(1) show False by simp
qed

subsection \<open>The example requests\<close>

lemma suffix_brief: "suffix ''Brief.PDF'' = ''.PDF''"
  by code_simp

lemma lower_brief: "lower ''.PDF'' = ''.pdf''"
  by code_simp

lemma validate_brief: "validate_file brief = (Inr (), brief)"
proof -
  have "pos brief = 0" by (simp add: brief_def)
  from validate_file_fresh [OF this] show ?thesis
    by (simp add: brief_def suffix_brief lower_brief MAX_FILE_SIZE_def ALLOWED_EXTENSIONS_def)
qed

lemma upload0_run:
  assumes key: "key = file_key_of id_a id_k ''evidence'' (uuid4_name e @ ''.PDF'')"
  shows "upload_document e world1 upload0 =
    (if s3_raises e then
       (Inl (HTTPException 500 ''Failed to upload file to storage''), close brief,
        world1\<lparr> trace := [S3Put key Failed], logs := [''S3 upload failed: put failed''] \<rparr>)
     else if commit_raises e then
       (Inl (HTTPException 400 ''Failed to save document record''),
        close (brief\<lparr> pos := length ''0123456789'' \<rparr>),
        world1\<lparr> objects := [key \<mapsto> ''0123456789''],
                trace := [S3Put key Done, DbCommit Failed, DbRollback],
                logs := [''Database operation failed: commit failed''] \<rparr>)
     else
       (Inr \<lparr> r_document_id = uuid4_row e, r_url = s3_url_of e key,
              r_file_name = uuid4_name e @ ''.PDF'' \<rparr>,
        close (brief\<lparr> pos := length ''0123456789'' \<rparr>),
        world1\<lparr> objects := [key \<mapsto> ''0123456789''],
                trace := [S3Put key Done, DbCommit Done],
                documents := [uuid4_row e \<mapsto>
                   \<lparr> doc_type = ''evidence'', doc_file_name = uuid4_name e @ ''.PDF'',
                     doc_file_path = s3_url_of e key, doc_created_at = utcnow e,
                     doc_adv_id = id_a, doc_case_id = id_k \<rparr>] \<rparr>))"
proof -
  have c: "uuid_parse (up_advocate_id upload0) \<noteq> None" "uuid_parse (up_case_id upload0) \<noteq> None"
    "advocates world1 (up_advocate_id upload0) \<noteq> None"
    "cases world1 (up_case_id upload0) \<noteq> None"
    "(up_advocate_id upload0, up_case_id upload0) \<in> set (advocate_cases world1)"
    by (simp_all add: upload0_def uuid_parse_id_a uuid_parse_id_k world1_def empty_world_def)
  have v: "validate_file (up_file upload0) = (Inr (), brief)"
    by (simp add: upload0_def validate_brief)
  have n: "uuid4_name e @ ''.PDF'' = sanitize_filename e (filename (up_file upload0))"
    by (simp add: sanitize_filename_def upload0_def brief_def suffix_brief)
  have k: "key = file_key_of (up_advocate_id upload0) (up_case_id upload0)
      (up_doc_type upload0) (uuid4_name e @ ''.PDF'')"
    by (simp add: key upload0_def)
  show ?thesis
    unfolding upload_document_checked [OF c v n k]
    by (simp add: world1_def empty_world_def upload0_def brief_def)
qed

lemma upload1_run:
  assumes key: "key = file_key_of id_b id_k ''petition'' ''test.txt''"
    and ok: "\<not> seek_raises e" "\<not> s3_raises e"
  shows "upload_file e lex1 upload1 =
    (if commit_raises e \<or> uuid4_row e = id_f \<or> uuid4_row e = id_m
     then (Inl (DatabaseError ''commit failed''),
           (uf_file upload1)\<lparr> pos := length ''0123456789'' \<rparr>,
           lex1\<lparr> objects := (objects lex1)(key \<mapsto> ''0123456789''),
                 trace := [S3Put key Done, DbCommit Failed] \<rparr>)
     else (Inr \<lparr> r_upload_message = ''File uploaded successfully'',
                 r_file_id = uuid4_row e, r_s3_url = s3_url_of e key \<rparr>,
           (uf_file upload1)\<lparr> pos := length ''0123456789'' \<rparr>,
           lex1\<lparr> objects := (objects lex1)(key \<mapsto> ''0123456789''),
                 trace := [S3Put key Done, DbCommit Done],
                 logs := [''File uploaded successfully: '' @ uuid4_row e],
                 files := (files lex1)(uuid4_row e \<mapsto>
                    \<lparr> file_name = ''test.txt'', case_id = id_k, lawyer_id = id_b,
                      s3_key = key, s3_url = s3_url_of e key, file_size = length ''0123456789'',
                      file_type = ''petition'', uploaded_at = utcnow e,
                      version_id = None, is_deleted = False \<rparr>) \<rparr>))"
proof -
  have t: "uf_file_type upload1 \<in> set allowed_types"
    by (simp add: upload1_def allowed_types_def)
  have ids: "uuid_parse (uf_case_id upload1) = Some id_k"
    "uuid_parse (uf_adv_id upload1) = Some id_b"
    by (simp_all add: upload1_def uuid_parse_id_k uuid_parse_id_b)
  have k: "key = file_key_of (uf_adv_id upload1) (uf_case_id upload1) (uf_file_type upload1)
      (filename (uf_file upload1))"
    by (simp add: key upload1_def)
  have ne: "id_f \<noteq> id_m" by (simp add: id_f_def id_m_def)
  have ran1: "ran (files lex1) = {meta2, meta1}"
    using ne by (simp add: lex1_def ran_map_upd)
  have keys: "key \<notin> s3_key ` ran (files lex1)"
    unfolding ran1 by (simp add: key meta1_def meta2_def file_key_of_def id_a_def id_b_def)
  have doms: "id_k \<in> dom (lex_cases lex1)" "id_b \<in> dom (users lex1)"
    "dom (files lex1) = {id_f, id_m}"
    by (auto simp: lex1_def)
  show ?thesis
    unfolding upload_file_stored [OF t ok ids k]
    using keys doms
    by (simp add: upload1_def brief_def lex1_def)
qed

section \<open>Properties of the endpoints\<close>

text \<open>
  C9. \<^verbatim>\<open>register_case\<close> is to fail with NotFound (status 404) when the advocate or the
  client id, both well-formed, has no row. The endpoint raises that 404 inside its
  \<^verbatim>\<open>try\<close> block, where \<^verbatim>\<open>except Exception\<close> catches it and raises status 400 in
  its place: for the well-formed \<open>id_a\<close> and \<open>id_c\<close> and no rows at all, the answer
  is 400 with the text of the 404 as detail.
\<close>

theorem register_case_missing_row_is_400:
  "register_case env0 empty_world form0 =
     (Inl (HTTPException 400 ''404: Advocate not found''),
      empty_world\<lparr> trace := [DbRollback],
                   logs := [''Case registration failed: 404: Advocate not found''] \<rparr>)"
  by (simp add: register_case_def register_case_try_def uuid_parse_id_a uuid_parse_id_c
      form0_def empty_world_def digits_of_404)

text \<open>
  C4. For \<^verbatim>\<open>delete_file\<close> on an existing record that is not deleted: when the
  object-store delete fails the answer is status 500 (storage failure) and no table
  and no object changes; the record's flag is set only in a run whose object-store
  delete succeeded, and it is set whenever that delete and the commit succeed.
\<close>

theorem delete_file_blob_failure_aborts:
  assumes "uuid_parse file_id = Some u" and "files w u = Some m" and "is_deleted m = False"
    and "delete_file e w file_id = (res, w')"
  shows "(s3_raises e \<longrightarrow>
            res = Inl (HTTPException 500 ''Failed to delete file from storage'')
            \<and> files w' = files w \<and> users w' = users w \<and> lex_cases w' = lex_cases w
            \<and> objects w' = objects w)
         \<and> (files w' u \<noteq> Some m \<longrightarrow>
            \<not> s3_raises e \<and> objects w' (s3_key m) = None
            \<and> trace w' = trace w @ [S3Delete (s3_key m) Done, DbCommit Done])
         \<and> (\<not> s3_raises e \<and> \<not> commit_raises e \<longrightarrow>
            res = Inr ''File deleted successfully''
            \<and> files w' = (files w)(u \<mapsto> m\<lparr> is_deleted := True \<rparr>))"
  using assms(2-4) unfolding delete_file_live [OF assms(1-3)]
  by (auto split: if_splits)

theorem delete_file_blob_failure_aborts_witness:
  "uuid_parse id_f = Some id_f \<and> files lex1 id_f = Some meta1 \<and> is_deleted meta1 = False
   \<and> fst (delete_file (env0\<lparr> s3_raises := True \<rparr>) lex1 id_f)
       = Inl (HTTPException 500 ''Failed to delete file from storage'')
   \<and> files (snd (delete_file (env0\<lparr> s3_raises := True \<rparr>) lex1 id_f)) = files lex1
   \<and> files (snd (delete_file env0 lex1 id_f)) = (files lex1)(id_f \<mapsto> meta1\<lparr> is_deleted := True \<rparr>)"
proof -
  have h1: "uuid_parse id_f = Some id_f" by (rule uuid_parse_id_f)
  have h2: "files lex1 id_f = Some meta1" by (rule lex1_file)
  have h3: "is_deleted meta1 = False" by (simp add: meta1_def)
  have down: "s3_raises (env0\<lparr> s3_raises := True \<rparr>)" by simp
  have up: "\<not> s3_raises env0 \<and> \<not> commit_raises env0" by (simp add: env0_def)
  from delete_file_blob_failure_aborts [OF h1 h2 h3 surjective_pairing] down
  have a: "fst (delete_file (env0\<lparr> s3_raises := True \<rparr>) lex1 id_f)
       = Inl (HTTPException 500 ''Failed to delete file from storage'')
     \<and> files (snd (delete_file (env0\<lparr> s3_raises := True \<rparr>) lex1 id_f)) = files lex1"
    by blast
  from delete_file_blob_failure_aborts [OF h1 h2 h3 surjective_pairing] up
  have b: "files (snd (delete_file env0 lex1 id_f))
       = (files lex1)(id_f \<mapsto> meta1\<lparr> is_deleted := True \<rparr>)"
    by blast
  from h1 h2 h3 a b show ?thesis by blast
qed

text \<open>
  C5. After \<^verbatim>\<open>delete_file\<close> has succeeded on an id, the row is still stored, with
  \<open>is_deleted\<close> true; the query of \<^verbatim>\<open>get_file\<close> and \<^verbatim>\<open>delete_file\<close> no longer
  returns it, and both endpoints answer 404 (NotFound) for that id, whatever the
  environment of the later request, leaving the state as it is.
\<close>

theorem soft_deleted_is_not_found:
  assumes "delete_file e w file_id = (Inr msg, w')"
  shows "\<exists>u m. uuid_parse file_id = Some u \<and> files w' u = Some m \<and> is_deleted m
           \<and> live_file w' u = None
           \<and> get_file e' w' file_id = (Inl (HTTPException 404 ''File not found''), w')
           \<and> delete_file e' w' file_id = (Inl (HTTPException 404 ''File not found''), w')"
proof -
  from delete_file_success [OF assms] obtain u m where
    u: "uuid_parse file_id = Some u" and
    w': "w' = w\<lparr> objects := (objects w)(s3_key m := None),
                 trace := trace w @ [S3Delete (s3_key m) Done, DbCommit Done],
                 logs := logs w @ [''File deleted successfully: '' @ u],
                 files := (files w)(u \<mapsto> m\<lparr> is_deleted := True \<rparr>) \<rparr>"
    by blast
  have row: "files w' u = Some (m\<lparr> is_deleted := True \<rparr>)" by (simp add: w')
  then have gone: "live_file w' u = None" by (simp add: live_file_def)
  have "get_file e' w' file_id = (Inl (HTTPException 404 ''File not found''), w')"
    by (simp add: get_file_def u gone)
  moreover have "delete_file e' w' file_id = (Inl (HTTPException 404 ''File not found''), w')"
    by (simp add: delete_file_def u gone)
  ultimately show ?thesis using u row gone by simp
qed

theorem soft_deleted_is_not_found_witness:
  "fst (delete_file env0 lex1 id_f) = Inr ''File deleted successfully''
   \<and> fst (get_file env0 (snd (delete_file env0 lex1 id_f)) id_f)
       = Inl (HTTPException 404 ''File not found'')
   \<and> fst (delete_file env0 (snd (delete_file env0 lex1 id_f)) id_f)
       = Inl (HTTPException 404 ''File not found'')"
proof -
  note ok = delete_file_lex1
  from soft_deleted_is_not_found [OF ok, where e' = env0] ok show ?thesis
    by (metis fst_conv)
qed

text \<open>
  C10. A successful \<^verbatim>\<open>delete_file\<close> changes, among the tables, one row of
  \<open>files\<close> and in it the flag \<open>is_deleted\<close> alone: the other columns of the row keep
  their values, every other row of \<open>files\<close> is as before, and so are \<open>users\<close> and
  \<open>lex_cases\<close>.
\<close>

theorem delete_file_frame:
  assumes "delete_file e w file_id = (Inr msg, w')"
  shows "\<exists>u m m'. uuid_parse file_id = Some u \<and> files w u = Some m \<and> files w' u = Some m'
           \<and> is_deleted m = False \<and> is_deleted m' = True
           \<and> file_name m' = file_name m \<and> s3_key m' = s3_key m \<and> s3_url m' = s3_url m
           \<and> file_size m' = file_size m \<and> file_type m' = file_type m
           \<and> uploaded_at m' = uploaded_at m \<and> case_id m' = case_id m
           \<and> lawyer_id m' = lawyer_id m \<and> version_id m' = version_id m
           \<and> (\<forall>i. i \<noteq> u \<longrightarrow> files w' i = files w i)
           \<and> users w' = users w \<and> lex_cases w' = lex_cases w"
proof -
  from delete_file_success [OF assms] obtain u m where
    u: "uuid_parse file_id = Some u" and m: "files w u = Some m" "is_deleted m = False" and
    w': "w' = w\<lparr> objects := (objects w)(s3_key m := None),
                 trace := trace w @ [S3Delete (s3_key m) Done, DbCommit Done],
                 logs := logs w @ [''File deleted successfully: '' @ u],
                 files := (files w)(u \<mapsto> m\<lparr> is_deleted := True \<rparr>) \<rparr>"
    by blast
  show ?thesis
    by (rule exI [of _ u], rule exI [of _ m], rule exI [of _ "m\<lparr> is_deleted := True \<rparr>"])
       (simp add: u m w')
qed

theorem delete_file_frame_witness:
  "fst (delete_file env0 lex1 id_f) = Inr ''File deleted successfully''
   \<and> files (snd (delete_file env0 lex1 id_f)) id_m = Some meta2
   \<and> users (snd (delete_file env0 lex1 id_f)) = users lex1
   \<and> lex_cases (snd (delete_file env0 lex1 id_f)) = lex_cases lex1"
proof -
  note ok = delete_file_lex1
  have ne: "id_m \<noteq> id_f" by (simp add: id_m_def id_f_def)
  have m2: "files lex1 id_m = Some meta2" by (simp add: lex1_def)
  from delete_file_frame [OF ok] uuid_parse_id_f ne m2 ok show ?thesis
    by (metis fst_conv option.inject)
qed

text \<open>
  C3 (amended). In \<^verbatim>\<open>upload_document\<close>, a request whose two ids are well-formed, whose
  advocate and case both exist and whose advocate is not associated with the case is
  answered with status 403 (Forbidden); no object is written, no row inserted, nothing
  at all changes. \<^verbatim>\<open>upload_file\<close> of the LexAI service has no such check: its tables
  hold no association between users and cases.
\<close>

theorem unassociated_advocate_forbidden:
  assumes "uuid_parse (up_advocate_id r) \<noteq> None" and "uuid_parse (up_case_id r) \<noteq> None"
    and "advocates w (up_advocate_id r) \<noteq> None" and "cases w (up_case_id r) \<noteq> None"
    and "(up_advocate_id r, up_case_id r) \<notin> set (advocate_cases w)"
  shows "upload_document e w r =
    (Inl (HTTPException 403 ''Advocate does not have permission for this case''),
     close (up_file r), w)"
proof -
  from assms(1,2) obtain a c where p: "uuid_parse (up_advocate_id r) = Some a"
    "uuid_parse (up_case_id r) = Some c" by auto
  from assms(3,4) obtain ra rc where q: "advocates w (up_advocate_id r) = Some ra"
    "cases w (up_case_id r) = Some rc" by auto
  show ?thesis
    using assms(5) by (simp add: upload_document_def upload_document_try_def Let_def p q)
qed

theorem unassociated_advocate_forbidden_witness:
  "uuid_parse id_b \<noteq> None \<and> uuid_parse id_k \<noteq> None \<and> advocates world1 id_b \<noteq> None
   \<and> cases world1 id_k \<noteq> None \<and> (id_b, id_k) \<notin> set (advocate_cases world1)
   \<and> upload_document env0 world1 (upload0\<lparr> up_advocate_id := id_b \<rparr>) =
       (Inl (HTTPException 403 ''Advocate does not have permission for this case''),
        close brief, world1)"
proof -
  let ?r = "upload0\<lparr> up_advocate_id := id_b \<rparr>"
  have u: "uuid_parse id_b \<noteq> None" "uuid_parse id_k \<noteq> None"
    by (simp_all add: uuid_parse_id_b uuid_parse_id_k)
  have ne: "id_b \<noteq> id_a" by (simp add: id_a_def id_b_def)
  have t: "advocates world1 id_b \<noteq> None"
    "cases world1 id_k \<noteq> None" "(id_b, id_k) \<notin> set (advocate_cases world1)"
    using ne by (simp_all add: world1_def empty_world_def)
  note h = u t
  have r: "up_advocate_id ?r = id_b" "up_case_id ?r = id_k" "up_file ?r = brief"
    by (simp_all add: upload0_def)
  from unassociated_advocate_forbidden [of ?r world1 env0] h r
  have "upload_document env0 world1 ?r =
       (Inl (HTTPException 403 ''Advocate does not have permission for this case''),
        close brief, world1)" by simp
  with h show ?thesis by simp
qed

text \<open>The claim as stated fails on \<^verbatim>\<open>upload_file\<close>: user \<open>id_b\<close> exists, case
  \<open>id_k\<close> was registered for \<open>id_a\<close>, and the upload by \<open>id_b\<close> on \<open>id_k\<close> succeeds,
  stores the object and inserts the row.\<close>

theorem upload_file_has_no_permission_check:
  "users lex1 id_b \<noteq> None
   \<and> map_option lc_client_id (lex_cases lex1 id_k) = Some id_a \<and> id_b \<noteq> id_a
   \<and> fst (upload_file env0 lex1 upload1) =
       Inr \<lparr> r_upload_message = ''File uploaded successfully'', r_file_id = id_r,
             r_s3_url = s3_url_of env0 (file_key_of id_b id_k ''petition'' ''test.txt'') \<rparr>
   \<and> objects (snd (snd (upload_file env0 lex1 upload1)))
       (file_key_of id_b id_k ''petition'' ''test.txt'') = Some ''0123456789''
   \<and> map_option lawyer_id (files (snd (snd (upload_file env0 lex1 upload1))) id_r) = Some id_b"
proof -
  have e: "\<not> seek_raises env0" "\<not> s3_raises env0" "\<not> commit_raises env0" "uuid4_row env0 = id_r"
    by (simp_all add: env0_def)
  have ne: "id_r \<noteq> id_f" "id_r \<noteq> id_m" "id_b \<noteq> id_a"
    by (simp_all add: id_r_def id_f_def id_m_def id_a_def id_b_def)
  have w: "users lex1 id_b \<noteq> None" "map_option lc_client_id (lex_cases lex1 id_k) = Some id_a"
    by (simp_all add: lex1_def)
  show ?thesis
    unfolding upload1_run [OF refl e(1,2)] using e ne w by simp
qed

text \<open>
  C2. In both upload endpoints the object write comes before the commit. When the
  write fails the answer is status 500 (storage failure) and neither a row nor an
  object is added; a failing store never lets a request succeed. Whenever a row has
  been added, the request wrote its object first and committed after, the object is
  in the store, and the row points at it.
\<close>

theorem blob_write_before_commit:
  assumes "upload_document e w r = (res, f', w')"
    and "upload_file e2 w2 r2 = (res2, f2', w2')"
  shows "(trace w' = trace w @ [S3Put key Failed] \<longrightarrow>
            res = Inl (HTTPException 500 ''Failed to upload file to storage'')
            \<and> documents w' = documents w \<and> objects w' = objects w)
       \<and> (s3_raises e \<longrightarrow> documents w' = documents w \<and> (\<exists>x. res = Inl x))
       \<and> (documents w' \<noteq> documents w \<longrightarrow>
            (\<exists>k d. trace w' = trace w @ [S3Put k Done, DbCommit Done]
                 \<and> objects w' k = Some (content (up_file r))
                 \<and> documents w' = (documents w)(uuid4_row e \<mapsto> d)
                 \<and> doc_file_path d = s3_url_of e k))
       \<and> (trace w2' = trace w2 @ [S3Put key2 Failed] \<longrightarrow>
            res2 = Inl (HTTPException 500 ''Upload failed'')
            \<and> files w2' = files w2 \<and> objects w2' = objects w2)
       \<and> (s3_raises e2 \<longrightarrow> files w2' = files w2 \<and> (\<exists>x. res2 = Inl x))
       \<and> (files w2' \<noteq> files w2 \<longrightarrow>
            (\<exists>k m. trace w2' = trace w2 @ [S3Put k Done, DbCommit Done]
                 \<and> objects w2' k = Some (content (uf_file r2))
                 \<and> files w2' = (files w2)(uuid4_row e2 \<mapsto> m) \<and> s3_key m = k))"
proof -
  have doc: "(trace w' = trace w @ [S3Put key Failed] \<longrightarrow>
            res = Inl (HTTPException 500 ''Failed to upload file to storage'')
            \<and> documents w' = documents w \<and> objects w' = objects w)
       \<and> (s3_raises e \<longrightarrow> documents w' = documents w \<and> (\<exists>x. res = Inl x))
       \<and> (documents w' \<noteq> documents w \<longrightarrow>
            (\<exists>k d. trace w' = trace w @ [S3Put k Done, DbCommit Done]
                 \<and> objects w' k = Some (content (up_file r))
                 \<and> documents w' = (documents w)(uuid4_row e \<mapsto> d)
                 \<and> doc_file_path d = s3_url_of e k))"
    using upload_document_outcomes [OF assms(1) refl refl]
    by (elim disjE conjE exE) (simp_all, fastforce)
  have lex: "(trace w2' = trace w2 @ [S3Put key2 Failed] \<longrightarrow>
            res2 = Inl (HTTPException 500 ''Upload failed'')
            \<and> files w2' = files w2 \<and> objects w2' = objects w2)
       \<and> (s3_raises e2 \<longrightarrow> files w2' = files w2 \<and> (\<exists>x. res2 = Inl x))
       \<and> (files w2' \<noteq> files w2 \<longrightarrow>
            (\<exists>k m. trace w2' = trace w2 @ [S3Put k Done, DbCommit Done]
                 \<and> objects w2' k = Some (content (uf_file r2))
                 \<and> files w2' = (files w2)(uuid4_row e2 \<mapsto> m) \<and> s3_key m = k))"
    using upload_file_outcomes [OF assms(2) refl]
    by (elim disjE conjE exE) (simp_all, fastforce)
  from doc lex show ?thesis by simp
qed

theorem blob_write_before_commit_witness:
  "trace (snd (snd (upload_document (env0\<lparr> s3_raises := True \<rparr>) world1 upload0)))
     = trace world1 @ [S3Put (file_key_of id_a id_k ''evidence'' (id_n @ ''.PDF'')) Failed]
   \<and> fst (upload_document (env0\<lparr> s3_raises := True \<rparr>) world1 upload0)
     = Inl (HTTPException 500 ''Failed to upload file to storage'')
   \<and> documents (snd (snd (upload_document (env0\<lparr> s3_raises := True \<rparr>) world1 upload0)))
     = documents world1
   \<and> trace (snd (snd (upload_file (env0\<lparr> s3_raises := True \<rparr>) lex1 upload1)))
     = trace lex1 @ [S3Put (file_key_of id_b id_k ''petition'' ''test.txt'') Failed]
   \<and> fst (upload_file (env0\<lparr> s3_raises := True \<rparr>) lex1 upload1)
     = Inl (HTTPException 500 ''Upload failed'')
   \<and> files (snd (snd (upload_file (env0\<lparr> s3_raises := True \<rparr>) lex1 upload1))) = files lex1"
proof -
  let ?e = "env0\<lparr> s3_raises := True \<rparr>"
  let ?k0 = "file_key_of id_a id_k ''evidence'' (id_n @ ''.PDF'')"
  let ?k1 = "file_key_of id_b id_k ''petition'' ''test.txt''"
  have e: "s3_raises ?e" "\<not> seek_raises ?e" "uuid4_name ?e = id_n"
    by (simp_all add: env0_def)
  have p1: "upload_document ?e world1 upload0
      = (fst (upload_document ?e world1 upload0), fst (snd (upload_document ?e world1 upload0)),
         snd (snd (upload_document ?e world1 upload0)))" by simp
  have p2: "upload_file ?e lex1 upload1
      = (fst (upload_file ?e lex1 upload1), fst (snd (upload_file ?e lex1 upload1)),
         snd (snd (upload_file ?e lex1 upload1)))" by simp
  have t1: "trace (snd (snd (upload_document ?e world1 upload0)))
      = trace world1 @ [S3Put ?k0 Failed]"
    unfolding upload0_run [OF refl] using e by (simp add: world1_def empty_world_def)
  have a: "uf_file_type upload1 \<in> set allowed_types"
    by (simp add: upload1_def allowed_types_def)
  have k: "?k1 = file_key_of (uf_adv_id upload1) (uf_case_id upload1) (uf_file_type upload1)
      (filename (uf_file upload1))" by (simp add: upload1_def)
  have t2: "trace (snd (snd (upload_file ?e lex1 upload1))) = trace lex1 @ [S3Put ?k1 Failed]"
    unfolding upload_file_put_failed [OF a e(2) e(1) k] by simp
  note th = blob_write_before_commit [OF p1 p2, of ?k0 ?k1]
  from th t1 have "fst (upload_document ?e world1 upload0)
        = Inl (HTTPException 500 ''Failed to upload file to storage'')
      \<and> documents (snd (snd (upload_document ?e world1 upload0))) = documents world1"
    by blast
  moreover from th t2 have "fst (upload_file ?e lex1 upload1)
        = Inl (HTTPException 500 ''Upload failed'')
      \<and> files (snd (snd (upload_file ?e lex1 upload1))) = files lex1"
    by blast
  ultimately show ?thesis using t1 t2 by blast
qed

text \<open>
  C1 (amended). When the commit fails after the object has been written, neither
  upload endpoint tries to delete the object: no request of either endpoint ever
  issues a delete to the store. The object stays in the store, no row is added, and
  the caller gets the commit failure: from \<^verbatim>\<open>upload_document\<close>, after a rollback and
  a log entry, status 400 with detail "Failed to save document record"; from
  \<^verbatim>\<open>upload_file\<close> the exception of the commit itself.
\<close>

theorem commit_failure_leaves_blob:
  assumes "upload_document e w r = (res, f', w')"
    and "upload_file e2 w2 r2 = (res2, f2', w2')"
  shows "(trace w' = trace w @ [S3Put key Done, DbCommit Failed, DbRollback] \<longrightarrow>
            res = Inl (HTTPException 400 ''Failed to save document record'')
            \<and> documents w' = documents w \<and> objects w' key = Some (content (up_file r))
            \<and> logs w' = logs w @ [''Database operation failed: commit failed''])
       \<and> (\<exists>t. trace w' = trace w @ t \<and> (\<forall>k x. S3Delete k x \<notin> set t))
       \<and> (trace w2' = trace w2 @ [S3Put key2 Done, DbCommit Failed] \<longrightarrow>
            res2 = Inl (DatabaseError ''commit failed'')
            \<and> files w2' = files w2 \<and> objects w2' key2 = Some (content (uf_file r2)))
       \<and> (\<exists>t. trace w2' = trace w2 @ t \<and> (\<forall>k x. S3Delete k x \<notin> set t))"
proof -
  have doc: "(trace w' = trace w @ [S3Put key Done, DbCommit Failed, DbRollback] \<longrightarrow>
            res = Inl (HTTPException 400 ''Failed to save document record'')
            \<and> documents w' = documents w \<and> objects w' key = Some (content (up_file r))
            \<and> logs w' = logs w @ [''Database operation failed: commit failed''])
       \<and> (\<exists>t. trace w' = trace w @ t \<and> (\<forall>k x. S3Delete k x \<notin> set t))"
    using upload_document_outcomes [OF assms(1) refl refl]
    by (elim disjE conjE exE) simp_all
  have lex: "(trace w2' = trace w2 @ [S3Put key2 Done, DbCommit Failed] \<longrightarrow>
            res2 = Inl (DatabaseError ''commit failed'')
            \<and> files w2' = files w2 \<and> objects w2' key2 = Some (content (uf_file r2)))
       \<and> (\<exists>t. trace w2' = trace w2 @ t \<and> (\<forall>k x. S3Delete k x \<notin> set t))"
    using upload_file_outcomes [OF assms(2) refl]
    by (elim disjE conjE exE) simp_all
  from doc lex show ?thesis by simp
qed

theorem commit_failure_leaves_blob_witness:
  "trace (snd (snd (upload_document (env0\<lparr> commit_raises := True \<rparr>) world1 upload0)))
     = trace world1 @ [S3Put (file_key_of id_a id_k ''evidence'' (id_n @ ''.PDF'')) Done,
                       DbCommit Failed, DbRollback]
   \<and> fst (upload_document (env0\<lparr> commit_raises := True \<rparr>) world1 upload0)
     = Inl (HTTPException 400 ''Failed to save document record'')
   \<and> documents (snd (snd (upload_document (env0\<lparr> commit_raises := True \<rparr>) world1 upload0)))
     = documents world1
   \<and> trace (snd (snd (upload_file (env0\<lparr> commit_raises := True \<rparr>) lex1 upload1)))
     = trace lex1 @ [S3Put (file_key_of id_b id_k ''petition'' ''test.txt'') Done,
                     DbCommit Failed]
   \<and> fst (upload_file (env0\<lparr> commit_raises := True \<rparr>) lex1 upload1)
     = Inl (DatabaseError ''commit failed'')
   \<and> objects (snd (snd (upload_file (env0\<lparr> commit_raises := True \<rparr>) lex1 upload1)))
       (file_key_of id_b id_k ''petition'' ''test.txt'') = Some (content (uf_file upload1))"
proof -
  let ?e = "env0\<lparr> commit_raises := True \<rparr>"
  let ?k0 = "file_key_of id_a id_k ''evidence'' (id_n @ ''.PDF'')"
  let ?k1 = "file_key_of id_b id_k ''petition'' ''test.txt''"
  have e: "\<not> s3_raises ?e" "\<not> seek_raises ?e" "commit_raises ?e" "uuid4_name ?e = id_n"
    by (simp_all add: env0_def)
  have p1: "upload_document ?e world1 upload0
      = (fst (upload_document ?e world1 upload0), fst (snd (upload_document ?e world1 upload0)),
         snd (snd (upload_document ?e world1 upload0)))" by simp
  have p2: "upload_file ?e lex1 upload1
      = (fst (upload_file ?e lex1 upload1), fst (snd (upload_file ?e lex1 upload1)),
         snd (snd (upload_file ?e lex1 upload1)))" by simp
  have t1: "trace (snd (snd (upload_document ?e world1 upload0)))
      = trace world1 @ [S3Put ?k0 Done, DbCommit Failed, DbRollback]"
    unfolding upload0_run [OF refl] using e by (simp add: world1_def empty_world_def)
  have t2: "trace (snd (snd (upload_file ?e lex1 upload1)))
      = trace lex1 @ [S3Put ?k1 Done, DbCommit Failed]"
    unfolding upload1_run [OF refl e(2) e(1)] using e by (simp add: lex1_def)
  note th = commit_failure_leaves_blob [OF p1 p2, of ?k0 ?k1]
  from th t1 have "fst (upload_document ?e world1 upload0)
        = Inl (HTTPException 400 ''Failed to save document record'')
      \<and> documents (snd (snd (upload_document ?e world1 upload0))) = documents world1"
    by blast
  moreover from th t2 have "fst (upload_file ?e lex1 upload1)
        = Inl (DatabaseError ''commit failed'')
      \<and> objects (snd (snd (upload_file ?e lex1 upload1))) ?k1 = Some (content (uf_file upload1))"
    by blast
  ultimately show ?thesis using t1 t2 by blast
qed

text \<open>The claim as stated fails: the commit of this \<^verbatim>\<open>upload_document\<close> request
  fails after the write; the calls made are the write, the commit and the rollback, no
  delete among them, and the object is still in the store.\<close>

theorem commit_failure_no_compensating_delete:
  "fst (upload_document (env0\<lparr> commit_raises := True \<rparr>) world1 upload0)
     = Inl (HTTPException 400 ''Failed to save document record'')
   \<and> trace (snd (snd (upload_document (env0\<lparr> commit_raises := True \<rparr>) world1 upload0)))
     = [S3Put (file_key_of id_a id_k ''evidence'' (id_n @ ''.PDF'')) Done,
        DbCommit Failed, DbRollback]
   \<and> objects (snd (snd (upload_document (env0\<lparr> commit_raises := True \<rparr>) world1 upload0)))
       (file_key_of id_a id_k ''evidence'' (id_n @ ''.PDF'')) = Some ''0123456789''
   \<and> logs (snd (snd (upload_document (env0\<lparr> commit_raises := True \<rparr>) world1 upload0)))
     = [''Database operation failed: commit failed'']"
proof -
  have e: "\<not> s3_raises (env0\<lparr> commit_raises := True \<rparr>)"
    "commit_raises (env0\<lparr> commit_raises := True \<rparr>)"
    "uuid4_name (env0\<lparr> commit_raises := True \<rparr>) = id_n"
    by (simp_all add: env0_def)
  show ?thesis
    unfolding upload0_run [OF refl] using e by simp
qed

text \<open>
  C8 (amended). For a stream handed over at position 0, the size check reads chunks of
  1024 bytes and keeps a running count. A content longer than 10 MiB is turned away
  with status 400 (invalid input) as soon as the count exceeds the limit: the position
  is then at most one chunk past the limit, it is not reset, and \<^verbatim>\<open>upload_document\<close>
  only closes the stream and changes nothing, so no object is written. A content within
  the limit is read to its end and the position is then reset to 0.
\<close>

theorem size_check_abort:
  assumes "pos (up_file r) = 0"
  shows "(length (content (up_file r)) > MAX_FILE_SIZE \<longrightarrow>
            validate_file (up_file r) =
              (Inl (HTTPException 400 ''File size exceeds maximum limit of 10.0MB''),
               (up_file r)\<lparr> pos := min (length (content (up_file r)))
                                       (MAX_FILE_SIZE + chunk_size) \<rparr>)
            \<and> snd (snd (upload_document e w r)) = w
            \<and> (\<exists>x. fst (upload_document e w r) = Inl x)
            \<and> (uuid_parse (up_advocate_id r) \<noteq> None \<and> uuid_parse (up_case_id r) \<noteq> None
               \<and> advocates w (up_advocate_id r) \<noteq> None \<and> cases w (up_case_id r) \<noteq> None
               \<and> (up_advocate_id r, up_case_id r) \<in> set (advocate_cases w) \<longrightarrow>
               upload_document e w r =
                 (Inl (HTTPException 400 ''File size exceeds maximum limit of 10.0MB''),
                  close ((up_file r)\<lparr> pos := min (length (content (up_file r)))
                                                 (MAX_FILE_SIZE + chunk_size) \<rparr>), w)))
       \<and> (length (content (up_file r)) \<le> MAX_FILE_SIZE \<longrightarrow>
            pos (snd (validate_file (up_file r))) = 0
            \<and> fst (validate_file (up_file r))
                \<noteq> Inl (HTTPException 400 ''File size exceeds maximum limit of 10.0MB''))"
proof (cases "length (content (up_file r)) > MAX_FILE_SIZE")
  case True
  let ?f = "(up_file r)\<lparr> pos := min (length (content (up_file r))) (MAX_FILE_SIZE + chunk_size) \<rparr>"
  have v: "validate_file (up_file r) = (Inl size_exceeded, ?f)"
    using True by (simp add: validate_file_fresh [OF assms])
  then have "fst (validate_file (up_file r)) = Inl size_exceeded" by simp
  from upload_document_rejected [of r w size_exceeded e] this
  have rej: "\<exists>y. fst (upload_document e w r) = Inl y \<and> snd (snd (upload_document e w r)) = w"
    by blast
  have run: "upload_document e w r = (Inl size_exceeded, close ?f, w)"
    if "uuid_parse (up_advocate_id r) \<noteq> None" "uuid_parse (up_case_id r) \<noteq> None"
      "advocates w (up_advocate_id r) \<noteq> None" "cases w (up_case_id r) \<noteq> None"
      "(up_advocate_id r, up_case_id r) \<in> set (advocate_cases w)"
  proof -
    from that(1,2) obtain a c where p: "uuid_parse (up_advocate_id r) = Some a"
      "uuid_parse (up_case_id r) = Some c" by auto
    from that(3,4) obtain ra rc where q: "advocates w (up_advocate_id r) = Some ra"
      "cases w (up_case_id r) = Some rc" by auto
    show ?thesis
      using that(5) by (simp add: upload_document_def upload_document_try_def Let_def p q v)
  qed
  from True v rej run show ?thesis by (auto simp: size_exceeded_def)
next
  case False
  then have "validate_file (up_file r) =
      (if lower (suffix (filename (up_file r))) \<notin> set ALLOWED_EXTENSIONS
       then (Inl type_not_allowed, up_file r) else (Inr (), up_file r))"
    by (simp add: validate_file_fresh [OF assms])
  with False assms show ?thesis by (simp add: type_not_allowed_def)
qed

theorem size_check_abort_witness:
  "pos big = 0 \<and> length (content big) > MAX_FILE_SIZE
   \<and> upload_document env0 world1 (upload0\<lparr> up_file := big \<rparr>) =
       (Inl (HTTPException 400 ''File size exceeds maximum limit of 10.0MB''),
        close (big\<lparr> pos := 10486784 \<rparr>), world1)
   \<and> pos brief = 0 \<and> length (content brief) \<le> MAX_FILE_SIZE
   \<and> pos (snd (validate_file brief)) = 0"
proof -
  let ?r = "upload0\<lparr> up_file := big \<rparr>"
  have b: "pos (up_file ?r) = 0" "length (content (up_file ?r)) > MAX_FILE_SIZE"
    "min (length (content (up_file ?r))) (MAX_FILE_SIZE + chunk_size) = 10486784"
    "up_file ?r = big"
    by (simp_all add: big_def MAX_FILE_SIZE_def chunk_size_def)
  have u: "uuid_parse (up_advocate_id ?r) \<noteq> None" "uuid_parse (up_case_id ?r) \<noteq> None"
    by (simp_all add: upload0_def uuid_parse_id_a uuid_parse_id_k)
  have t: "advocates world1 (up_advocate_id ?r) \<noteq> None" "cases world1 (up_case_id ?r) \<noteq> None"
    "(up_advocate_id ?r, up_case_id ?r) \<in> set (advocate_cases world1)"
    by (simp_all add: upload0_def world1_def empty_world_def)
  from size_check_abort [OF b(1), of env0 world1] b(2) u t
  have "upload_document env0 world1 ?r =
       (Inl (HTTPException 400 ''File size exceeds maximum limit of 10.0MB''),
        close ((up_file ?r)\<lparr> pos := min (length (content (up_file ?r)))
                                       (MAX_FILE_SIZE + chunk_size) \<rparr>), world1)"
    by blast
  then have big_run: "upload_document env0 world1 ?r =
       (Inl (HTTPException 400 ''File size exceeds maximum limit of 10.0MB''),
        close (big\<lparr> pos := 10486784 \<rparr>), world1)"
    using b(3) by simp
  let ?q = "upload0"
  have s: "pos (up_file ?q) = 0" "length (content (up_file ?q)) \<le> MAX_FILE_SIZE"
    "up_file ?q = brief"
    by (simp_all add: upload0_def brief_def MAX_FILE_SIZE_def)
  from size_check_abort [OF s(1), of env0 world1] s(2)
  have "pos (snd (validate_file (up_file ?q))) = 0" by blast
  with s big_run b show ?thesis by simp
qed

text \<open>The claim as stated fails: the size check of the 11 MiB file stops with the
  position at 10 MiB plus one chunk, not at 0.\<close>

theorem size_abort_position_not_reset:
  "pos big = 0
   \<and> fst (validate_file big)
       = Inl (HTTPException 400 ''File size exceeds maximum limit of 10.0MB'')
   \<and> pos (snd (validate_file big)) = 10486784"
proof -
  have p: "pos big = 0" by (simp add: big_def)
  show ?thesis
    unfolding validate_file_fresh [OF p]
    by (simp add: big_def MAX_FILE_SIZE_def chunk_size_def size_exceeded_def)
qed

text \<open>
  C7 (amended). The name under which \<^verbatim>\<open>upload_document\<close> stores a file is the fresh
  \<^verbatim>\<open>uuid4\<close> text followed by the extension of the client's name as the client wrote it:
  the rest of the client's name plays no part, the extension holds no path separator,
  and its lower-case form is in the allowed set, but the stored extension itself is
  not lower-cased. The row and the response carry this name.
\<close>

theorem stored_name_is_generated:
  assumes "upload_document e w r = (Inr res, f', w')"
  shows "\<exists>d. documents w' (uuid4_row e) = Some d
           \<and> doc_file_name d = uuid4_name e @ suffix (filename (up_file r))
           \<and> doc_file_name d = sanitize_filename e (filename (up_file r))
           \<and> r_file_name res = doc_file_name d
           \<and> (suffix n = suffix (filename (up_file r)) \<longrightarrow>
                sanitize_filename e n = doc_file_name d)
           \<and> lower (suffix (filename (up_file r))) \<in> set ALLOWED_EXTENSIONS
           \<and> CHR ''/'' \<notin> set (suffix (filename (up_file r)))"
proof -
  from upload_document_outcomes [OF assms refl refl]
  have ok: "fst (validate_file (up_file r)) = Inr ()"
    and res: "r_file_name res = sanitize_filename e (filename (up_file r))"
    and row: "map_option doc_file_name (documents w' (uuid4_row e))
        = Some (sanitize_filename e (filename (up_file r)))"
    by auto
  from ok have "validate_file (up_file r) = (Inr (), snd (validate_file (up_file r)))"
    by (metis prod.collapse)
  from validate_file_ok [OF this]
  have ext: "lower (suffix (filename (up_file r))) \<in> set ALLOWED_EXTENSIONS" by simp
  from row obtain d where d: "documents w' (uuid4_row e) = Some d"
    "doc_file_name d = sanitize_filename e (filename (up_file r))" by auto
  show ?thesis
    using d res ext suffix_no_sep [of "filename (up_file r)"]
    by (simp add: sanitize_filename_def)
qed

theorem stored_name_is_generated_witness:
  "fst (upload_document env0 world1 upload0) =
     Inr \<lparr> r_document_id = id_r,
           r_url = s3_url_of env0 (file_key_of id_a id_k ''evidence'' (id_n @ ''.PDF'')),
           r_file_name = id_n @ ''.PDF'' \<rparr>
   \<and> map_option doc_file_name (documents (snd (snd (upload_document env0 world1 upload0))) id_r)
       = Some (id_n @ suffix ''Brief.PDF'')"
proof -
  have e: "\<not> s3_raises env0" "\<not> commit_raises env0" "uuid4_name env0 = id_n"
    "uuid4_row env0 = id_r" by (simp_all add: env0_def)
  have run: "fst (upload_document env0 world1 upload0) =
     Inr \<lparr> r_document_id = id_r,
           r_url = s3_url_of env0 (file_key_of id_a id_k ''evidence'' (id_n @ ''.PDF'')),
           r_file_name = id_n @ ''.PDF'' \<rparr>"
    unfolding upload0_run [OF refl] using e by simp
  then have p: "upload_document env0 world1 upload0 =
     (Inr \<lparr> r_document_id = id_r,
            r_url = s3_url_of env0 (file_key_of id_a id_k ''evidence'' (id_n @ ''.PDF'')),
            r_file_name = id_n @ ''.PDF'' \<rparr>,
      fst (snd (upload_document env0 world1 upload0)),
      snd (snd (upload_document env0 world1 upload0)))"
    by (metis prod.collapse)
  have f: "filename (up_file upload0) = ''Brief.PDF''" by (simp add: upload0_def brief_def)
  from stored_name_is_generated [OF p] e f
  have "map_option doc_file_name (documents (snd (snd (upload_document env0 world1 upload0))) id_r)
       = Some (id_n @ suffix ''Brief.PDF'')" by auto
  with run show ?thesis by simp
qed

text \<open>The claim as stated fails: the client's \<open>Brief.PDF\<close> passes the extension check
  and is stored under a name that ends in \<open>.PDF\<close>, not in the lower-cased \<open>.pdf\<close>.\<close>

theorem sanitize_filename_keeps_case:
  "sanitize_filename env0 ''Brief.PDF'' = id_n @ ''.PDF''
   \<and> lower ''.PDF'' = ''.pdf''
   \<and> id_n @ ''.PDF'' \<noteq> id_n @ ''.pdf''
   \<and> map_option doc_file_name (documents (snd (snd (upload_document env0 world1 upload0))) id_r)
       = Some (id_n @ ''.PDF'')"
proof -
  have e: "\<not> s3_raises env0" "\<not> commit_raises env0" "uuid4_name env0 = id_n"
    "uuid4_row env0 = id_r" by (simp_all add: env0_def)
  have "map_option doc_file_name (documents (snd (snd (upload_document env0 world1 upload0))) id_r)
       = Some (id_n @ ''.PDF'')"
    unfolding upload0_run [OF refl] using e by simp
  then show ?thesis
    using e by (simp add: sanitize_filename_def suffix_brief lower_brief)
qed

text \<open>
  C6 (amended). \<^verbatim>\<open>upload_document\<close> stores each object under the key
  \<open>advocate_id/case_id/doc_type/name\<close>, the name being the \<^verbatim>\<open>uuid4\<close> text followed by
  the extension; two successful uploads whose \<^verbatim>\<open>uuid4\<close> texts differ (and have the
  same length, as all such texts do) have different keys. \<^verbatim>\<open>upload_file\<close> ends its key
  with the client's file name, with no generated part; the key of a row it inserts is
  the key of no row already there, which the unique constraint on \<open>s3_key\<close> enforces
  at the commit.
\<close>

theorem storage_keys_distinct:
  assumes "upload_document e1 w1 r1 = (Inr res1, f1, w1')"
    and "upload_document e2 w2 r2 = (Inr res2, f2, w2')"
    and "uuid4_name e1 \<noteq> uuid4_name e2"
    and "length (uuid4_name e1) = length (uuid4_name e2)"
    and "CHR ''/'' \<notin> set (uuid4_name e1)" and "CHR ''/'' \<notin> set (uuid4_name e2)"
    and "upload_file e3 w3 r3 = (Inr res3, f3, w3')"
  shows "(\<exists>k1 k2.
            k1 = file_key_of (up_advocate_id r1) (up_case_id r1) (up_doc_type r1)
                   (uuid4_name e1 @ suffix (filename (up_file r1)))
          \<and> k2 = file_key_of (up_advocate_id r2) (up_case_id r2) (up_doc_type r2)
                   (uuid4_name e2 @ suffix (filename (up_file r2)))
          \<and> trace w1' = trace w1 @ [S3Put k1 Done, DbCommit Done]
          \<and> trace w2' = trace w2 @ [S3Put k2 Done, DbCommit Done]
          \<and> r_url res1 = s3_url_of e1 k1 \<and> r_url res2 = s3_url_of e2 k2
          \<and> k1 \<noteq> k2)
       \<and> (\<exists>m. files w3' (uuid4_row e3) = Some m
          \<and> s3_key m = file_key_of (uf_adv_id r3) (uf_case_id r3) (uf_file_type r3)
                          (filename (uf_file r3))
          \<and> s3_key m \<notin> s3_key ` ran (files w3))"
proof -
  from upload_document_outcomes [OF assms(1) refl refl]
  have a: "trace w1' = trace w1 @ [S3Put (file_key_of (up_advocate_id r1) (up_case_id r1)
        (up_doc_type r1) (sanitize_filename e1 (filename (up_file r1)))) Done, DbCommit Done]"
    "r_url res1 = s3_url_of e1 (file_key_of (up_advocate_id r1) (up_case_id r1)
        (up_doc_type r1) (sanitize_filename e1 (filename (up_file r1))))"
    by auto
  from upload_document_outcomes [OF assms(2) refl refl]
  have b: "trace w2' = trace w2 @ [S3Put (file_key_of (up_advocate_id r2) (up_case_id r2)
        (up_doc_type r2) (sanitize_filename e2 (filename (up_file r2)))) Done, DbCommit Done]"
    "r_url res2 = s3_url_of e2 (file_key_of (up_advocate_id r2) (up_case_id r2)
        (up_doc_type r2) (sanitize_filename e2 (filename (up_file r2))))"
    by auto
  note ne = keys_differ [OF assms(3-6), of "up_advocate_id r1" "up_case_id r1" "up_doc_type r1"
      "filename (up_file r1)" "up_advocate_id r2" "up_case_id r2" "up_doc_type r2"
      "filename (up_file r2)"]
  from upload_file_outcomes [OF assms(7) refl]
  have c: "\<exists>m. files w3' (uuid4_row e3) = Some m
          \<and> s3_key m = file_key_of (uf_adv_id r3) (uf_case_id r3) (uf_file_type r3)
                          (filename (uf_file r3))
          \<and> s3_key m \<notin> s3_key ` ran (files w3)"
    by auto
  from a b ne c show ?thesis by (simp add: sanitize_filename_def)
qed

theorem storage_keys_distinct_witness:
  "uuid4_name env0 \<noteq> uuid4_name (env0\<lparr> uuid4_name := id_m \<rparr>)
   \<and> length (uuid4_name env0) = length (uuid4_name (env0\<lparr> uuid4_name := id_m \<rparr>))
   \<and> CHR ''/'' \<notin> set (uuid4_name env0)
   \<and> CHR ''/'' \<notin> set (uuid4_name (env0\<lparr> uuid4_name := id_m \<rparr>))
   \<and> trace (snd (snd (upload_document env0 world1 upload0)))
       = [S3Put (file_key_of id_a id_k ''evidence'' (id_n @ ''.PDF'')) Done, DbCommit Done]
   \<and> trace (snd (snd (upload_document (env0\<lparr> uuid4_name := id_m \<rparr>) world1 upload0)))
       = [S3Put (file_key_of id_a id_k ''evidence'' (id_m @ ''.PDF'')) Done, DbCommit Done]
   \<and> file_key_of id_a id_k ''evidence'' (id_n @ ''.PDF'')
       \<noteq> file_key_of id_a id_k ''evidence'' (id_m @ ''.PDF'')
   \<and> map_option s3_key (files (snd (snd (upload_file env0 lex1 upload1))) id_r)
       = Some (file_key_of id_b id_k ''petition'' ''test.txt'')"
proof -
  let ?e2 = "env0\<lparr> uuid4_name := id_m \<rparr>"
  have e: "\<not> s3_raises env0" "\<not> commit_raises env0" "\<not> seek_raises env0"
    "uuid4_name env0 = id_n" "uuid4_row env0 = id_r"
    "\<not> s3_raises ?e2" "\<not> commit_raises ?e2" "uuid4_name ?e2 = id_m" "uuid4_row ?e2 = id_r"
    by (simp_all add: env0_def)
  have h: "uuid4_name env0 \<noteq> uuid4_name ?e2" "length (uuid4_name env0) = length (uuid4_name ?e2)"
    "CHR ''/'' \<notin> set (uuid4_name env0)" "CHR ''/'' \<notin> set (uuid4_name ?e2)"
    by (simp_all add: env0_def id_n_def id_m_def)
  have ne: "id_r \<noteq> id_f" "id_r \<noteq> id_m"
    by (simp_all add: id_r_def id_f_def id_m_def)
  have p1: "upload_document env0 world1 upload0 =
      (Inr \<lparr> r_document_id = id_r,
             r_url = s3_url_of env0 (file_key_of id_a id_k ''evidence'' (id_n @ ''.PDF'')),
             r_file_name = id_n @ ''.PDF'' \<rparr>,
       fst (snd (upload_document env0 world1 upload0)),
       snd (snd (upload_document env0 world1 upload0)))"
    unfolding upload0_run [OF refl] using e by simp
  have p2: "upload_document ?e2 world1 upload0 =
      (Inr \<lparr> r_document_id = id_r,
             r_url = s3_url_of ?e2 (file_key_of id_a id_k ''evidence'' (id_m @ ''.PDF'')),
             r_file_name = id_m @ ''.PDF'' \<rparr>,
       fst (snd (upload_document ?e2 world1 upload0)),
       snd (snd (upload_document ?e2 world1 upload0)))"
    unfolding upload0_run [OF refl] using e by simp
  have p3: "upload_file env0 lex1 upload1 =
      (Inr \<lparr> r_upload_message = ''File uploaded successfully'', r_file_id = id_r,
             r_s3_url = s3_url_of env0 (file_key_of id_b id_k ''petition'' ''test.txt'') \<rparr>,
       fst (snd (upload_file env0 lex1 upload1)),
       snd (snd (upload_file env0 lex1 upload1)))"
    unfolding upload1_run [OF refl e(3) e(1)] using e ne by simp
  have r: "up_advocate_id upload0 = id_a" "up_case_id upload0 = id_k"
    "up_doc_type upload0 = ''evidence''" "filename (up_file upload0) = ''Brief.PDF''"
    "uf_adv_id upload1 = id_b" "uf_case_id upload1 = id_k" "uf_file_type upload1 = ''petition''"
    "filename (uf_file upload1) = ''test.txt''" "trace world1 = []"
    by (simp_all add: upload0_def upload1_def brief_def world1_def empty_world_def)
  from storage_keys_distinct [OF p1 p2 h p3]
  have "trace (snd (snd (upload_document env0 world1 upload0)))
       = [S3Put (file_key_of id_a id_k ''evidence'' (id_n @ ''.PDF'')) Done, DbCommit Done]
   \<and> trace (snd (snd (upload_document ?e2 world1 upload0)))
       = [S3Put (file_key_of id_a id_k ''evidence'' (id_m @ ''.PDF'')) Done, DbCommit Done]
   \<and> file_key_of id_a id_k ''evidence'' (id_n @ ''.PDF'')
       \<noteq> file_key_of id_a id_k ''evidence'' (id_m @ ''.PDF'')
   \<and> map_option s3_key (files (snd (snd (upload_file env0 lex1 upload1))) id_r)
       = Some (file_key_of id_b id_k ''petition'' ''test.txt'')"
    unfolding r e suffix_brief by auto
  with h show ?thesis by simp
qed

text \<open>The claim as stated fails on \<^verbatim>\<open>upload_file\<close>: the key of the stored row ends
  with the client's \<open>test.txt\<close>; a second upload of the same form with other \<^verbatim>\<open>uuid4\<close>
  draws writes to the very same key and is turned away only by the commit.\<close>

theorem upload_file_key_is_client_name:
  "filename (uf_file upload1) = ''test.txt''
   \<and> map_option s3_key (files (snd (snd (upload_file env0 lex1 upload1))) id_r)
       = Some (file_key_of id_b id_k ''petition'' ''test.txt'')
   \<and> uuid4_name (env0\<lparr> uuid4_name := id_m, uuid4_row := id_c \<rparr>) \<noteq> uuid4_name env0
   \<and> uuid4_row (env0\<lparr> uuid4_name := id_m, uuid4_row := id_c \<rparr>) \<noteq> uuid4_row env0
   \<and> fst (upload_file (env0\<lparr> uuid4_name := id_m, uuid4_row := id_c \<rparr>)
            (snd (snd (upload_file env0 lex1 upload1))) upload1)
       = Inl (DatabaseError ''commit failed'')
   \<and> trace (snd (snd (upload_file (env0\<lparr> uuid4_name := id_m, uuid4_row := id_c \<rparr>)
            (snd (snd (upload_file env0 lex1 upload1))) upload1)))
       = [S3Put (file_key_of id_b id_k ''petition'' ''test.txt'') Done, DbCommit Done,
          S3Put (file_key_of id_b id_k ''petition'' ''test.txt'') Done, DbCommit Failed]"
proof -
  let ?e1 = "env0\<lparr> uuid4_name := id_m, uuid4_row := id_c \<rparr>"
  let ?k = "file_key_of id_b id_k ''petition'' ''test.txt''"
  let ?w = "snd (snd (upload_file env0 lex1 upload1))"
  have e: "\<not> s3_raises env0" "\<not> commit_raises env0" "\<not> seek_raises env0"
    "uuid4_name env0 = id_n" "uuid4_row env0 = id_r"
    "\<not> s3_raises ?e1" "\<not> seek_raises ?e1"
    by (simp_all add: env0_def)
  have d: "uuid4_name ?e1 \<noteq> uuid4_name env0" "uuid4_row ?e1 \<noteq> uuid4_row env0"
    by (simp_all add: env0_def id_n_def id_m_def id_r_def id_c_def)
  have ne: "id_r \<noteq> id_f" "id_r \<noteq> id_m"
    by (simp_all add: id_r_def id_f_def id_m_def)
  have row: "map_option s3_key (files ?w id_r) = Some ?k" and tr: "trace ?w = [S3Put ?k Done, DbCommit Done]"
    unfolding upload1_run [OF refl e(3) e(1)] using e ne by simp_all
  from row obtain m where m: "files ?w id_r = Some m" "s3_key m = ?k" by auto
  then have "m \<in> ran (files ?w)" by (simp add: ranI)
  with m have dup: "?k \<in> s3_key ` ran (files ?w)" by force
  have t: "uf_file_type upload1 \<in> set allowed_types"
    by (simp add: upload1_def allowed_types_def)
  have ids: "uuid_parse (uf_case_id upload1) = Some id_k"
    "uuid_parse (uf_adv_id upload1) = Some id_b"
    by (simp_all add: upload1_def uuid_parse_id_k uuid_parse_id_b)
  have k: "?k = file_key_of (uf_adv_id upload1) (uf_case_id upload1) (uf_file_type upload1)
      (filename (uf_file upload1))"
    by (simp add: upload1_def)
  have f: "filename (uf_file upload1) = ''test.txt''" by (simp add: upload1_def)
  have second: "fst (upload_file ?e1 ?w upload1) = Inl (DatabaseError ''commit failed'')
      \<and> trace (snd (snd (upload_file ?e1 ?w upload1))) = trace ?w @ [S3Put ?k Done, DbCommit Failed]"
    unfolding upload_file_stored [OF t e(7) e(6) ids k] using dup by simp
  from f row d second tr show ?thesis by simp
qed

end
